theory Spec2Isabelle
  imports Complex_Main
begin

section \<open>Simulated images and example coordinate systems (photutils.datasets)\<close>

text \<open>
  The development embeds \<^verbatim>\<open>photutils/datasets/images.py\<close> and
  \<^verbatim>\<open>photutils/datasets/wcs.py\<close>. Floating-point numbers are read as reals,
  Python integers as \<open>int\<close> or \<open>nat\<close>, a raised exception as the left injection of a
  sum, and a mutated object as a state that is passed in and returned.
\<close>

subsection \<open>Exceptions and warnings\<close>

text \<open>
  \<open>ModelError\<close> stands for any exception raised by the evaluation of a model.
  \<open>NonFinite\<close> is no exception of the code: it marks a result in which a float
  division by zero has produced \<^verbatim>\<open>inf\<close> or \<^verbatim>\<open>nan\<close>, where floats can no
  longer be read as reals. The code returns such a result without raising.
\<close>

datatype error =
    UnboundLocalError
  | ValueError
  | NoOverlapError
  | ModelError
  | NonFinite

datatype warning =
    PsfShapeLargerThanModel "int \<times> int"
  | PsfShapeLargerThanBBox "int \<times> int"

subsection \<open>Model objects\<close>

text \<open>
  A bounding box gives a lower and an upper bound for each of the axes
  \<^verbatim>\<open>x\<close> and \<^verbatim>\<open>y\<close>.
\<close>

record bbox =
  x_lower :: real
  x_upper :: real
  y_lower :: real
  y_upper :: real

text \<open>
  A model object, as far as the functions below look at it: its parameter names, the
  current values of its parameters (the mutable part), the shape of its
  \<^verbatim>\<open>data\<close> attribute (\<open>None\<close> when reading \<^verbatim>\<open>data.ndim\<close> raises
  \<^verbatim>\<open>AttributeError\<close>), its \<^verbatim>\<open>oversampling\<close> attribute as the pair that
  \<^verbatim>\<open>as_pair\<close> returns for it (\<open>None\<close> when the attribute is missing), and its
  bounding box (\<open>None\<close> when reading it raises \<^verbatim>\<open>NotImplementedError\<close>).
  Calling the model evaluates it with its current parameter values: \<open>evaluate\<close> takes
  these values and either raises (\<open>None\<close>) or gives the value at every point
  \<open>(x, y)\<close>.
\<close>

record model =
  param_names :: "string list"
  params :: "string \<Rightarrow> real"
  data_shape :: "int list option"
  oversampling :: "(int \<times> int) option"
  bounding_box :: "bbox option"
  evaluate :: "(string \<Rightarrow> real) \<Rightarrow> (real \<Rightarrow> real \<Rightarrow> real) option"

text \<open>\<^verbatim>\<open>setattr(model, param, value)\<close> for a parameter of the model.\<close>

definition setattr :: "model \<Rightarrow> string \<Rightarrow> real \<Rightarrow> model" where
  "setattr m p v = m\<lparr>params := (params m)(p := v)\<rparr>"

subsection \<open>The evaluation window: \<^verbatim>\<open>_define_psf_shape\<close>\<close>

text \<open>
  Python compares two tuples lexicographically; \<^verbatim>\<open>psf_shape > model_shape\<close> is
  one truth value, and \<^verbatim>\<open>np.any\<close> of it is that value.
\<close>

definition tuple_gt :: "int \<times> int \<Rightarrow> int \<times> int \<Rightarrow> bool" where
  "tuple_gt a b = (fst a > fst b \<or> (fst a = fst b \<and> snd a > snd b))"

text \<open>\<^verbatim>\<open>tuple(np.min([model_shape, psf_shape], axis=0))\<close>\<close>

definition min_shape :: "int \<times> int \<Rightarrow> int \<times> int \<Rightarrow> int \<times> int" where
  "min_shape a b = (min (fst a) (fst b), min (snd a) (snd b))"

text \<open>
  The first \<^verbatim>\<open>if\<close>/\<^verbatim>\<open>elif\<close> of the data branch; no branch assigns
  \<^verbatim>\<open>model_shape\<close> when the number of dimensions is neither 3 nor 2.
\<close>

definition data_model_shape :: "int list \<Rightarrow> int list option" where
  "data_model_shape shp =
     (if length shp = 3 then Some (tl shp)
      else if length shp = 2 then Some shp
      else None)"

definition define_psf_shape ::
  "model \<Rightarrow> int \<times> int \<Rightarrow> error + ((int \<times> int) \<times> warning list)" where
  "define_psf_shape psf_model psf_shape =
     (case data_shape psf_model of
        Some shp \<Rightarrow>
          (let ovs = (case oversampling psf_model of None \<Rightarrow> (1, 1) | Some p \<Rightarrow> p)
           in case data_model_shape shp of
                None \<Rightarrow> Inl UnboundLocalError
              | Some ms \<Rightarrow>
                  (let model_shape = (ms ! 0 div fst ovs, ms ! 1 div snd ovs)
                   in if tuple_gt psf_shape model_shape
                      then (let psf_shape' = min_shape model_shape psf_shape
                            in Inr (psf_shape', [PsfShapeLargerThanModel psf_shape']))
                      else Inr (psf_shape, [])))
      | None \<Rightarrow>
          (case bounding_box psf_model of
             Some bb \<Rightarrow>
               (let ixmin = \<lfloor>x_lower bb + 0.5\<rfloor>;
                    ixmax = \<lceil>x_upper bb + 0.5\<rceil>;
                    iymin = \<lfloor>y_lower bb + 0.5\<rfloor>;
                    iymax = \<lceil>y_upper bb + 0.5\<rceil>;
                    model_shape = (iymax - iymin, ixmax - ixmin)
                in if tuple_gt psf_shape model_shape
                   then (let psf_shape' = min_shape model_shape psf_shape
                         in Inr (psf_shape', [PsfShapeLargerThanBBox psf_shape']))
                   else Inr (psf_shape, []))
           | None \<Rightarrow> Inr (psf_shape, [])))"

text \<open>A model object with no data, no oversampling and no bounding box, and a model
  object with data whose value is its flux everywhere.\<close>

definition bare_model ::
  "string list \<Rightarrow> (string \<Rightarrow> real) \<Rightarrow>
   ((string \<Rightarrow> real) \<Rightarrow> (real \<Rightarrow> real \<Rightarrow> real) option) \<Rightarrow> model" where
  "bare_model names vals ev =
     \<lparr>param_names = names, params = vals, data_shape = None,
      oversampling = None, bounding_box = None, evaluate = ev\<rparr>"

definition data_model :: "int list \<Rightarrow> model" where
  "data_model shp =
     \<lparr>param_names = [''flux'', ''x_0'', ''y_0''], params = (\<lambda>_. 0),
      data_shape = Some shp, oversampling = None, bounding_box = None,
      evaluate = (\<lambda>p. Some (\<lambda>x y. p ''flux''))\<rparr>"

subsection \<open>Source tables\<close>

text \<open>
  A table is a list of named columns; every column has the same number of entries,
  and a row is the entries at one index.
\<close>

type_synonym table = "(string \<times> real list) list"

definition colnames :: "table \<Rightarrow> string list" where
  "colnames t = map fst t"

definition nrows :: "table \<Rightarrow> nat" where
  "nrows t = (case t of [] \<Rightarrow> 0 | (_, c) # _ \<Rightarrow> length c)"

text \<open>\<^verbatim>\<open>source_table[name]\<close>, read only for a name among the column names.\<close>

definition column :: "table \<Rightarrow> string \<Rightarrow> real list" where
  "column t name = the (map_of t name)"

text \<open>\<^verbatim>\<open>source[param]\<close> for the row \<open>i\<close>.\<close>

definition cell :: "table \<Rightarrow> string \<Rightarrow> nat \<Rightarrow> real" where
  "cell t name i = column t name ! i"

text \<open>\<^verbatim>\<open>source_table[name] = col\<close>: a new column goes to the end.\<close>

definition set_column :: "table \<Rightarrow> string \<Rightarrow> real list \<Rightarrow> table" where
  "set_column t name col =
     (if name \<in> set (colnames t)
      then map (\<lambda>(n, c). if n = name then (n, col) else (n, c)) t
      else t @ [(name, col)])"

subsection \<open>Images\<close>

type_synonym image = "real list list"

text \<open>\<^verbatim>\<open>np.zeros(shape, dtype=float)\<close>, the shape being (rows, columns).\<close>

definition zeros :: "nat \<times> nat \<Rightarrow> image" where
  "zeros shape = replicate (fst shape) (replicate (snd shape) 0)"

text \<open>
  The array whose entry in row \<open>i\<close> and column \<open>j\<close> is \<open>f i j\<close>, and the sum of two
  arrays of one shape.
\<close>

definition pixel_grid :: "nat \<times> nat \<Rightarrow> (nat \<Rightarrow> nat \<Rightarrow> real) \<Rightarrow> image" where
  "pixel_grid shape f = map (\<lambda>i. map (\<lambda>j. f i j) [0..<snd shape]) [0..<fst shape]"

definition image_plus :: "image \<Rightarrow> image \<Rightarrow> image" where
  "image_plus a b = map2 (map2 (+)) a b"

subsection \<open>The renderer: \<^verbatim>\<open>make_model_sources_image\<close>\<close>

text \<open>
  \<^verbatim>\<open>discretize_model\<close> is a library routine: from the model in its current state
  and the oversampling factor it either raises or gives the value of every pixel.
\<close>

type_synonym discretizer = "model \<Rightarrow> real \<Rightarrow> (nat \<Rightarrow> nat \<Rightarrow> real) option"

definition params_to_set :: "model \<Rightarrow> table \<Rightarrow> string list" where
  "params_to_set m t = filter (\<lambda>param. param \<in> set (param_names m)) (colnames t)"

text \<open>The inner loop: every parameter to set takes the value of the row.\<close>

definition set_row_params :: "table \<Rightarrow> string list \<Rightarrow> nat \<Rightarrow> model \<Rightarrow> model" where
  "set_row_params t ps i m = fold (\<lambda>param m'. setattr m' param (cell t param i)) ps m"

text \<open>
  What one source adds to the image: the model at the pixel indices
  (\<^verbatim>\<open>model(xidx, yidx)\<close>) when \<^verbatim>\<open>oversample == 1\<close>, the discretized model
  otherwise.
\<close>

definition source_image ::
  "discretizer \<Rightarrow> nat \<times> nat \<Rightarrow> real \<Rightarrow> model \<Rightarrow> image option" where
  "source_image disc shape oversample m =
     (if oversample = 1
      then map_option (\<lambda>f. pixel_grid shape (\<lambda>i j. f (real j) (real i)))
             (evaluate m (params m))
      else map_option (pixel_grid shape) (disc m oversample))"

text \<open>
  The body of the \<^verbatim>\<open>try\<close>: the loop over the rows. It returns the model as the
  loop leaves it, and the image or the exception that ended the loop.
\<close>

fun render_rows ::
  "discretizer \<Rightarrow> nat \<times> nat \<Rightarrow> real \<Rightarrow> table \<Rightarrow> string list \<Rightarrow> nat list \<Rightarrow>
   model \<Rightarrow> image \<Rightarrow> model \<times> (error + image)" where
  "render_rows disc shape oversample t ps [] m img = (m, Inr img)"
| "render_rows disc shape oversample t ps (i # rest) m img =
     (let m' = set_row_params t ps i m
      in case source_image disc shape oversample m' of
           None \<Rightarrow> (m', Inl ModelError)
         | Some arr \<Rightarrow> render_rows disc shape oversample t ps rest m' (image_plus img arr))"

text \<open>
  \<^verbatim>\<open>init_params\<close> maps each parameter to set to what \<^verbatim>\<open>getattr\<close> returns for
  it: the parameter object of the model itself, not a copy of its value. A reference
  to a parameter of the model is the name of the parameter, and reading it gives the
  value the parameter has at the time of reading. The \<^verbatim>\<open>finally\<close> block assigns
  to every saved parameter what its saved reference gives.
\<close>

definition restore_params :: "(string \<times> string) list \<Rightarrow> model \<Rightarrow> model" where
  "restore_params init_params m =
     fold (\<lambda>(param, ref) m'. setattr m' param (params m' ref)) init_params m"

text \<open>
  The function returns the model as it leaves it, together with the image or the
  exception that passes through the \<^verbatim>\<open>finally\<close> block.
\<close>

definition make_model_sources_image ::
  "discretizer \<Rightarrow> nat \<times> nat \<Rightarrow> model \<Rightarrow> table \<Rightarrow> real \<Rightarrow> model \<times> (error + image)" where
  "make_model_sources_image disc shape m source_table oversample =
     (let image = zeros shape;
          ps = params_to_set m source_table;
          init_params = map (\<lambda>param. (param, param)) ps;
          (m', r) = render_rows disc shape oversample source_table ps
                      [0..<nrows source_table] m image
      in (restore_params init_params m', r))"

subsection \<open>The Gaussian wrappers\<close>

text \<open>
  The wrappers copy the caller's table before they add a column to it. Tables are
  therefore objects in a store: a reference is an index into the list of all tables,
  \<^verbatim>\<open>copy()\<close> allocates a new table, and setting a column changes the table at
  the reference.
\<close>

type_synonym store = "table list"

definition copy_table :: "store \<Rightarrow> nat \<Rightarrow> store \<times> nat" where
  "copy_table h a = (h @ [h ! a], length h)"

definition setitem :: "store \<Rightarrow> nat \<Rightarrow> string \<Rightarrow> real list \<Rightarrow> store" where
  "setitem h a name col = h[a := set_column (h ! a) name col]"

text \<open>
  A standard deviation is either a column of the table or the default of the model, a
  scalar that arithmetic broadcasts to the length of the other operand.
\<close>

datatype colval = Scalar real | Col "real list"

definition broadcast :: "nat \<Rightarrow> colval \<Rightarrow> real list" where
  "broadcast n v = (case v of Scalar s \<Rightarrow> replicate n s | Col c \<Rightarrow> c)"

definition stddev_of :: "table \<Rightarrow> model \<Rightarrow> string \<Rightarrow> colval" where
  "stddev_of t m name =
     (case map_of t name of Some c \<Rightarrow> Col c | None \<Rightarrow> Scalar (params m name))"

text \<open>
  \<^verbatim>\<open>models.Gaussian2D(x_stddev=1, y_stddev=1)\<close> and
  \<^verbatim>\<open>IntegratedGaussianPRF(sigma=1)\<close>: the parameter names are those the
  docstrings and \<^verbatim>\<open>make_test_psf_data\<close> use, the values the defaults. How a
  model evaluates is left open.
\<close>

definition Gaussian2D ::
  "((string \<Rightarrow> real) \<Rightarrow> (real \<Rightarrow> real \<Rightarrow> real) option) \<Rightarrow> model" where
  "Gaussian2D ev =
     bare_model [''amplitude'', ''x_mean'', ''y_mean'', ''x_stddev'', ''y_stddev'', ''theta'']
       ((\<lambda>_. 0)(''amplitude'' := 1, ''x_stddev'' := 1, ''y_stddev'' := 1)) ev"

definition IntegratedGaussianPRF ::
  "((string \<Rightarrow> real) \<Rightarrow> (real \<Rightarrow> real \<Rightarrow> real) option) \<Rightarrow> model" where
  "IntegratedGaussianPRF ev =
     bare_model [''flux'', ''x_0'', ''y_0'', ''sigma'']
       ((\<lambda>_. 0)(''flux'' := 1, ''sigma'' := 1)) ev"

text \<open>
  \<^verbatim>\<open>source_table['flux'] / (2.0 * np.pi * xstd * ystd)\<close>. Where a divisor is
  zero the float quotient is \<^verbatim>\<open>inf\<close> or \<^verbatim>\<open>nan\<close> and no column of reals
  results (\<open>None\<close>).
\<close>

definition flux_to_amplitude :: "real list \<Rightarrow> colval \<Rightarrow> colval \<Rightarrow> real list option" where
  "flux_to_amplitude flux xstd ystd =
     (let d = map2 (\<lambda>sx sy. 2 * pi * sx * sy)
                (broadcast (length flux) xstd) (broadcast (length flux) ystd)
      in if 0 \<in> set d then None else Some (map2 (\<lambda>f d. f / d) flux d))"

text \<open>\<^verbatim>\<open>source_table['amplitude'] * (2.0 * np.pi * sigma * sigma)\<close>\<close>

definition amplitude_to_flux :: "real list \<Rightarrow> colval \<Rightarrow> real list" where
  "amplitude_to_flux amplitude sigma =
     map2 (\<lambda>a d. a * d) amplitude
       (map (\<lambda>s. 2 * pi * s * s) (broadcast (length amplitude) sigma))"

text \<open>
  Both wrappers take the store and the reference to the caller's table, and return the
  store as they leave it with the result of the renderer. The model is their own
  object. Where the amplitude column is not a column of reals, the copy is left
  without it and the result is marked \<open>NonFinite\<close>.
\<close>

definition make_gaussian_sources_image ::
  "((string \<Rightarrow> real) \<Rightarrow> (real \<Rightarrow> real \<Rightarrow> real) option) \<Rightarrow> discretizer \<Rightarrow>
   store \<Rightarrow> nat \<times> nat \<Rightarrow> nat \<Rightarrow> real \<Rightarrow> store \<times> (error + image)" where
  "make_gaussian_sources_image ev disc h shape source_table oversample =
     (let m = Gaussian2D ev;
          xstd = stddev_of (h ! source_table) m ''x_stddev'';
          ystd = stddev_of (h ! source_table) m ''y_stddev'';
          cn = colnames (h ! source_table)
      in if ''flux'' \<in> set cn \<and> ''amplitude'' \<notin> set cn
         then (let (h1, a1) = copy_table h source_table
               in case flux_to_amplitude (column (h1 ! a1) ''flux'') xstd ystd of
                    None \<Rightarrow> (h1, Inl NonFinite)
                  | Some amplitude \<Rightarrow>
                      (let h2 = setitem h1 a1 ''amplitude'' amplitude
                       in (h2, snd (make_model_sources_image disc shape m (h2 ! a1)
                                      oversample))))
         else (h, snd (make_model_sources_image disc shape m (h ! source_table)
                         oversample)))"

definition make_gaussian_prf_sources_image ::
  "((string \<Rightarrow> real) \<Rightarrow> (real \<Rightarrow> real \<Rightarrow> real) option) \<Rightarrow> discretizer \<Rightarrow>
   store \<Rightarrow> nat \<times> nat \<Rightarrow> nat \<Rightarrow> store \<times> (error + image)" where
  "make_gaussian_prf_sources_image ev disc h shape source_table =
     (let m = IntegratedGaussianPRF ev;
          sigma = stddev_of (h ! source_table) m ''sigma'';
          cn = colnames (h ! source_table)
      in if ''flux'' \<notin> set cn \<and> ''amplitude'' \<in> set cn
         then (let (h1, a1) = copy_table h source_table;
                   h2 = setitem h1 a1 ''flux''
                          (amplitude_to_flux (column (h1 ! a1) ''amplitude'') sigma)
               in (h2, snd (make_model_sources_image disc shape m (h2 ! a1) 1)))
         else (h, snd (make_model_sources_image disc shape m (h ! source_table) 1)))"

subsection \<open>The PSF test image: \<^verbatim>\<open>make_test_psf_data\<close>\<close>

text \<open>
  \<^verbatim>\<open>overlap_slices(shape, psf_shape, (ycen, xcen), mode='trim')\<close> is a library
  routine. On each axis the window reaches from \<open>\<lceil>pos - size / 2\<rceil>\<close> to
  \<open>\<lceil>pos + size / 2\<rceil>\<close> (exclusive); the routine raises when the window ends
  before the array begins (an upper index below 0, or equal to 0 for a window shape
  other than \<open>(0, 0)\<close>) or begins after the array ends, and otherwise clips the
  window to the array. Only the slices into the large array are used; a slice is a
  pair (start, stop).
\<close>

type_synonym slices = "(nat \<times> nat) \<times> (nat \<times> nat)"

definition overlap_slices ::
  "nat \<times> nat \<Rightarrow> int \<times> int \<Rightarrow> real \<times> real \<Rightarrow> error + slices" where
  "overlap_slices large small pos =
     (let ymin = \<lceil>fst pos - real_of_int (fst small) / 2\<rceil>;
          ymax = \<lceil>fst pos + real_of_int (fst small) / 2\<rceil>;
          xmin = \<lceil>snd pos - real_of_int (snd small) / 2\<rceil>;
          xmax = \<lceil>snd pos + real_of_int (snd small) / 2\<rceil>
      in if ymax < 0 \<or> (ymax = 0 \<and> small \<noteq> (0, 0))
            \<or> xmax < 0 \<or> (xmax = 0 \<and> small \<noteq> (0, 0)) then Inl NoOverlapError
         else if ymin \<ge> int (fst large) \<or> xmin \<ge> int (snd large) then Inl NoOverlapError
         else Inr ((nat (max 0 ymin), nat (min (int (fst large)) ymax)),
                   (nat (max 0 xmin), nat (min (int (snd large)) xmax))))"

definition in_slices :: "slices \<Rightarrow> nat \<Rightarrow> nat \<Rightarrow> bool" where
  "in_slices slc i j =
     (fst (fst slc) \<le> i \<and> i < snd (fst slc) \<and> fst (snd slc) \<le> j \<and> j < snd (snd slc))"

text \<open>
  \<^verbatim>\<open>data[slc_lg] += psf_model(xx, yy)\<close>, the grids \<^verbatim>\<open>yy, xx\<close> holding the
  row and column indices of the slices.
\<close>

definition add_at :: "image \<Rightarrow> slices \<Rightarrow> (real \<Rightarrow> real \<Rightarrow> real) \<Rightarrow> image" where
  "add_at data slc f =
     map (\<lambda>(i, row).
            map (\<lambda>(j, v). if in_slices slc i j then v + f (real j) (real i) else v)
              (enumerate 0 row))
       (enumerate 0 data)"

text \<open>
  \<^verbatim>\<open>make_random_xycoords\<close> is a parameter: from the number of sources, the two
  ranges, the minimum separation and the seed it gives the list of \<open>(x, y)\<close>
  positions.
\<close>

type_synonym xycoords_gen =
  "nat \<Rightarrow> int \<times> int \<Rightarrow> int \<times> int \<Rightarrow> real \<Rightarrow> nat \<Rightarrow> (real \<times> real) list"

text \<open>
  \<^verbatim>\<open>rng.uniform(low, high, n)\<close>: \<open>n\<close> samples, the \<open>k\<close>-th being
  \<open>low + (high - low) * u\<close> for the \<open>k\<close>-th unit sample \<open>u\<close> of the generator seeded
  with \<open>seed\<close>.
\<close>

definition uniform ::
  "(nat \<Rightarrow> nat \<Rightarrow> real) \<Rightarrow> nat \<Rightarrow> real \<Rightarrow> real \<Rightarrow> nat \<Rightarrow> real list" where
  "uniform unit seed low high n = map (\<lambda>k. low + (high - low) * unit seed k) [0..<n]"

text \<open>The border: \<^verbatim>\<open>(np.array(psf_shape) - 1) // 2\<close>, or the caller's.\<close>

definition hshape_of :: "int \<times> int \<Rightarrow> (int \<times> int) option \<Rightarrow> int \<times> int" where
  "hshape_of psf_shape border_size =
     (case border_size of
        None \<Rightarrow> ((fst psf_shape - 1) div 2, (snd psf_shape - 1) div 2)
      | Some b \<Rightarrow> b)"

text \<open>
  The placement loop over the rows of the table \<^verbatim>\<open>sources\<close>. It returns the
  model as the loop leaves it, and the image or the exception that ended the loop.
\<close>

fun place_sources ::
  "nat \<times> nat \<Rightarrow> int \<times> int \<Rightarrow> table \<Rightarrow> nat list \<Rightarrow> model \<Rightarrow> image \<Rightarrow>
   model \<times> (error + image)" where
  "place_sources shape psf_shape sources [] m data = (m, Inr data)"
| "place_sources shape psf_shape sources (i # rest) m data =
     (let m' = fold (\<lambda>param m'. setattr m' param (cell sources param i))
                 [''x_0'', ''y_0'', ''flux''] m;
          xcen = cell sources ''x_0'' i;
          ycen = cell sources ''y_0'' i
      in case overlap_slices shape psf_shape (ycen, xcen) of
           Inl e \<Rightarrow> (m', Inl e)
         | Inr slc_lg \<Rightarrow>
             (case evaluate m' (params m') of
                None \<Rightarrow> (m', Inl ModelError)
              | Some f \<Rightarrow> place_sources shape psf_shape sources rest m' (add_at data slc_lg f)))"

text \<open>
  The function returns the model as it leaves it, the warnings issued, and the image
  with the table of sources or the exception raised. A table whose columns differ in
  length cannot be built; the attempt raises \<^verbatim>\<open>ValueError\<close>.
\<close>

definition make_test_psf_data ::
  "xycoords_gen \<Rightarrow> (nat \<Rightarrow> nat \<Rightarrow> real) \<Rightarrow> nat \<times> nat \<Rightarrow> model \<Rightarrow> int \<times> int \<Rightarrow> nat \<Rightarrow>
   real \<times> real \<Rightarrow> real \<Rightarrow> nat \<Rightarrow> (int \<times> int) option \<Rightarrow>
   model \<times> warning list \<times> (error + image \<times> table)" where
  "make_test_psf_data make_random_xycoords unit shape psf_model psf_shape nsources
       flux_range min_separation seed border_size =
     (case define_psf_shape psf_model psf_shape of
        Inl e \<Rightarrow> (psf_model, [], Inl e)
      | Inr (psf_shape', warns) \<Rightarrow>
          (let hshape = hshape_of psf_shape' border_size;
               xrange = (snd hshape, int (snd shape) - snd hshape);
               yrange = (fst hshape, int (fst shape) - fst hshape);
               xycoords = make_random_xycoords nsources xrange yrange min_separation seed;
               x = map fst xycoords;
               y = map snd xycoords;
               flux = take (length x)
                        (uniform unit seed (fst flux_range) (snd flux_range) nsources)
           in if length flux \<noteq> length x then (psf_model, warns, Inl ValueError)
              else
                (let sources = [(''x_0'', x), (''y_0'', y), (''flux'', flux)];
                     (m', r) = place_sources shape psf_shape' sources [0..<nrows sources]
                                 psf_model (zeros shape)
                 in case r of
                      Inl e \<Rightarrow> (m', warns, Inl e)
                    | Inr data \<Rightarrow>
                        (m', warns, Inr (data, [(''x'', x), (''y'', y), (''flux'', flux)])))))"

subsection \<open>Coordinate systems: \<^verbatim>\<open>make_wcs\<close> and \<^verbatim>\<open>make_gwcs\<close>\<close>

text \<open>
  Both builders only fill in parameters. \<^verbatim>\<open>make_wcs\<close> returns the FITS
  parameters it sets; \<^verbatim>\<open>make_gwcs\<close> returns the pipeline it composes: the two
  shifts, the affine transformation with the CD matrix, the projection
  \<^verbatim>\<open>Pix2Sky_TAN\<close>, the rotation from native to celestial coordinates, and the
  frame of the sky coordinates. A matrix is the pair of its rows.
\<close>

type_synonym matrix = "(real \<times> real) \<times> (real \<times> real)"

datatype frame = ICRS | Galactic

datatype projection = TAN | CAR

record wcs =
  pixel_shape :: "nat \<times> nat"
  crpix :: "real \<times> real"
  crval :: "real \<times> real"
  cunit :: "string \<times> string"
  cd :: matrix
  radesys :: "string option"
  ctype :: "string \<times> string"

definition rho :: real where
  "rho = pi / 3.0"

definition scale :: real where
  "scale = 0.1 / 3600.0"

definition cd_matrix :: matrix where
  "cd_matrix = ((- scale * cos rho, scale * sin rho), (scale * sin rho, scale * cos rho))"

definition make_wcs :: "nat \<times> nat \<Rightarrow> bool \<Rightarrow> wcs" where
  "make_wcs shape galactic =
     \<lparr>pixel_shape = shape,
      crpix = (real (snd shape) / 2, real (fst shape) / 2),
      crval = (197.8925, - 1.36555556),
      cunit = (''deg'', ''deg''),
      cd = cd_matrix,
      radesys = (if \<not> galactic then Some ''ICRS'' else None),
      ctype = (if \<not> galactic then (''RA---TAN'', ''DEC--TAN'')
               else (''GLON-CAR'', ''GLAT-CAR''))\<rparr>"

record gwcs =
  shift_by_crpix :: "real \<times> real"
  rotation :: matrix
  tan_projection :: projection
  celestial_rotation :: "real \<times> real \<times> real"
  sky_frame :: frame

definition make_gwcs :: "nat \<times> nat \<Rightarrow> bool \<Rightarrow> gwcs" where
  "make_gwcs shape galactic =
     \<lparr>shift_by_crpix = ((- real (snd shape) / 2) + 1, (- real (fst shape) / 2) + 1),
      rotation = cd_matrix,
      tan_projection = TAN,
      celestial_rotation = (197.8925, - 1.36555556, 180.0),
      sky_frame = (if galactic then Galactic else ICRS)\<rparr>"

text \<open>
  What the libraries compute from these parameters, after the FITS standard for
  celestial coordinates, in degrees. Pixel coordinates are counted from 0 and the
  reference pixel from 1, so the offset from the reference pixel is \<open>p + 1 - crpix\<close>;
  the CD matrix turns it into intermediate coordinates \<open>(x, y)\<close>. The projection
  turns these into native spherical coordinates \<open>(\<phi>, \<theta>)\<close>: for \<open>TAN\<close>,
  \<open>\<phi> = arg (-y, x)\<close> and \<open>\<theta> = arctan (180 / (\<pi> R))\<close> with
  \<open>R = sqrt (x\<^sup>2 + y\<^sup>2)\<close>; for \<open>CAR\<close>, \<open>\<phi> = x\<close> and \<open>\<theta> = y\<close>. The rotation
  with the celestial coordinates \<open>(\<alpha>\<^sub>p, \<delta>\<^sub>p)\<close> of the native pole and the native
  longitude \<open>\<phi>\<^sub>p\<close> of the celestial pole turns them into celestial coordinates:
  \<open>\<delta> = arcsin (sin \<theta> sin \<delta>\<^sub>p + cos \<theta> cos \<delta>\<^sub>p cos (\<phi> - \<phi>\<^sub>p))\<close> and
  \<open>\<alpha> = \<alpha>\<^sub>p + arg (sin \<theta> cos \<delta>\<^sub>p - cos \<theta> sin \<delta>\<^sub>p cos (\<phi> - \<phi>\<^sub>p), - cos \<theta> sin (\<phi> - \<phi>\<^sub>p))\<close>.
\<close>

definition deg :: "real \<Rightarrow> real" where
  "deg r = r * 180 / pi"

definition rad :: "real \<Rightarrow> real" where
  "rad d = d * pi / 180"

definition arctan2 :: "real \<Rightarrow> real \<Rightarrow> real" where
  "arctan2 y x =
     (if x > 0 then arctan (y / x)
      else if x < 0 \<and> y \<ge> 0 then arctan (y / x) + pi
      else if x < 0 \<and> y < 0 then arctan (y / x) - pi
      else if y > 0 then pi / 2
      else if y < 0 then - pi / 2
      else 0)"

definition mat_vec :: "matrix \<Rightarrow> real \<times> real \<Rightarrow> real \<times> real" where
  "mat_vec m v =
     (fst (fst m) * fst v + snd (fst m) * snd v, fst (snd m) * fst v + snd (snd m) * snd v)"

definition pix2sky :: "projection \<Rightarrow> real \<times> real \<Rightarrow> real \<times> real" where
  "pix2sky proj xy =
     (case proj of
        TAN \<Rightarrow> (deg (arctan2 (fst xy) (- snd xy)),
                deg (arctan2 (180 / pi) (sqrt ((fst xy)\<^sup>2 + (snd xy)\<^sup>2))))
      | CAR \<Rightarrow> xy)"

definition native2celestial :: "real \<times> real \<times> real \<Rightarrow> real \<times> real \<Rightarrow> real \<times> real" where
  "native2celestial pole native =
     (let alpha_p = fst pole; delta_p = rad (fst (snd pole)); phi_p = snd (snd pole);
          dphi = rad (fst native - phi_p); theta = rad (snd native);
          alpha = alpha_p
                    + deg (arctan2 (- cos theta * sin dphi)
                             (sin theta * cos delta_p - cos theta * sin delta_p * cos dphi));
          delta = deg (arcsin (sin theta * sin delta_p + cos theta * cos delta_p * cos dphi))
      in (if alpha < 0 then alpha + 360 else alpha, delta))"

text \<open>
  The projection of a FITS coordinate system is named by the last three letters of its
  axis types. Its native pole follows from the reference value \<open>(\<alpha>\<^sub>0, \<delta>\<^sub>0)\<close>: the
  native longitude of the celestial pole defaults to 180 degrees for a reference
  latitude below that of the projection's reference point, as here. For \<open>TAN\<close> the
  reference point is the native pole, which therefore lies at \<open>(\<alpha>\<^sub>0, \<delta>\<^sub>0)\<close>; for
  \<open>CAR\<close> the reference point is the origin of the native coordinates, and the native
  pole lies 90 degrees from it on the same meridian, at \<open>(\<alpha>\<^sub>0, 90 + \<delta>\<^sub>0)\<close>.
\<close>

definition projection_of :: "string \<times> string \<Rightarrow> projection" where
  "projection_of ct = (if drop 5 (fst ct) = ''CAR'' then CAR else TAN)"

definition celestial_pole :: "projection \<Rightarrow> real \<times> real \<Rightarrow> real \<times> real \<times> real" where
  "celestial_pole proj cv =
     (case proj of
        TAN \<Rightarrow> (fst cv, snd cv, 180)
      | CAR \<Rightarrow> (fst cv, 90 + snd cv, 180))"

definition wcs_frame :: "wcs \<Rightarrow> frame" where
  "wcs_frame w = (if take 4 (fst (ctype w)) = ''GLON'' then Galactic else ICRS)"

definition wcs_pixel_to_world :: "wcs \<Rightarrow> real \<times> real \<Rightarrow> real \<times> real" where
  "wcs_pixel_to_world w p =
     (let proj = projection_of (ctype w);
          d = (fst p + 1 - fst (crpix w), snd p + 1 - snd (crpix w))
      in native2celestial (celestial_pole proj (crval w)) (pix2sky proj (mat_vec (cd w) d)))"

definition gwcs_pixel_to_world :: "gwcs \<Rightarrow> real \<times> real \<Rightarrow> real \<times> real" where
  "gwcs_pixel_to_world g p =
     native2celestial (celestial_rotation g)
       (pix2sky (tan_projection g)
          (mat_vec (rotation g) (fst p + fst (shift_by_crpix g), snd p + snd (shift_by_crpix g))))"

subsection \<open>The image container: \<^verbatim>\<open>make_imagehdu\<close>\<close>

text \<open>
  An array is its shape with its entries; a coordinate system is known by the header
  that \<^verbatim>\<open>to_header()\<close> gives for it; an image container holds the data and an
  optional header.
\<close>

record 'a ndarray =
  shape_of :: "nat list"
  entries :: "'a list"

record ('a, 'h) image_hdu =
  hdu_data :: "'a ndarray"
  hdu_header :: "'h option"

definition make_imagehdu ::
  "('w \<Rightarrow> 'h) \<Rightarrow> 'a ndarray \<Rightarrow> 'w option \<Rightarrow> error + ('a, 'h) image_hdu" where
  "make_imagehdu to_header data wcs =
     (if length (shape_of data) \<noteq> 2 then Inl ValueError
      else (let header = (case wcs of Some w \<Rightarrow> Some (to_header w) | None \<Rightarrow> None)
            in Inr \<lparr>hdu_data = data, hdu_header = header\<rparr>))"

subsection \<open>Notions used in the statements\<close>

text \<open>
  Two model objects agree outside a set of parameters when they differ at most in the
  values of these parameters.
\<close>

definition same_model_but :: "string set \<Rightarrow> model \<Rightarrow> model \<Rightarrow> bool" where
  "same_model_but S m m' =
     (param_names m' = param_names m \<and> data_shape m' = data_shape m \<and>
      oversampling m' = oversampling m \<and> bounding_box m' = bounding_box m \<and>
      evaluate m' = evaluate m \<and> (\<forall>p. p \<notin> S \<longrightarrow> params m' p = params m p))"

text \<open>
  A well-formed table: the column names are distinct and all columns have the length
  of the table.
\<close>

definition table_ok :: "table \<Rightarrow> bool" where
  "table_ok t = (distinct (colnames t) \<and> (\<forall>c \<in> set t. length (snd c) = nrows t))"

text \<open>
  Rendering a list of parameter sets, one for each source: the model is evaluated with
  exactly the parameter values of the set (through \<open>source_image\<close>, for the
  oversampling factor given), and the images are added up; the first evaluation that
  raises ends the rendering.
\<close>

fun render_params ::
  "discretizer \<Rightarrow> nat \<times> nat \<Rightarrow> real \<Rightarrow> model \<Rightarrow> (string \<Rightarrow> real) list \<Rightarrow> image \<Rightarrow>
   error + image" where
  "render_params disc shape oversample m [] img = Inr img"
| "render_params disc shape oversample m (p # ps) img =
     (case source_image disc shape oversample (m\<lparr>params := p\<rparr>) of
        None \<Rightarrow> Inl ModelError
      | Some arr \<Rightarrow> render_params disc shape oversample m ps (image_plus img arr))"

text \<open>
  The parameter values of the Gaussian for row \<open>i\<close> of a table, as the documentation
  of \<^verbatim>\<open>make_gaussian_sources_image\<close> has them. The amplitude is that of the table
  when the table has one, even when it has a flux as well; otherwise it is
  flux / (2 pi sigma_x sigma_y) when the table has a flux, and the default 1 when it
  has neither. A standard deviation is that of the table, or the default 1. Every
  other parameter is that of the table, or its default.
\<close>

definition gaussian_stddev :: "table \<Rightarrow> string \<Rightarrow> nat \<Rightarrow> real" where
  "gaussian_stddev t name i = (if name \<in> set (colnames t) then cell t name i else 1)"

definition gaussian_source_params :: "table \<Rightarrow> nat \<Rightarrow> string \<Rightarrow> real" where
  "gaussian_source_params t i p =
     (if p = ''amplitude'' then
        (if ''amplitude'' \<in> set (colnames t) then cell t ''amplitude'' i
         else if ''flux'' \<in> set (colnames t)
           then cell t ''flux'' i
                  / (2 * pi * gaussian_stddev t ''x_stddev'' i * gaussian_stddev t ''y_stddev'' i)
         else 1)
      else if p \<in> {''x_mean'', ''y_mean'', ''x_stddev'', ''y_stddev'', ''theta''}
              \<and> p \<in> set (colnames t) then cell t p i
      else if p = ''x_stddev'' \<or> p = ''y_stddev'' then 1
      else 0)"

text \<open>
  The parameter values of the Gaussian PRF for row \<open>i\<close> of a table. The flux is that
  of the table when the table has one, even when it has an amplitude as well;
  otherwise it is amplitude * 2 pi sigma sigma when the table has an amplitude, and the
  default 1 when it has neither.
\<close>

definition prf_source_params :: "table \<Rightarrow> nat \<Rightarrow> string \<Rightarrow> real" where
  "prf_source_params t i p =
     (if p = ''flux'' then
        (if ''flux'' \<in> set (colnames t) then cell t ''flux'' i
         else if ''amplitude'' \<in> set (colnames t)
           then cell t ''amplitude'' i
                  * (2 * pi * gaussian_stddev t ''sigma'' i * gaussian_stddev t ''sigma'' i)
         else 1)
      else if p \<in> {''x_0'', ''y_0'', ''sigma''} \<and> p \<in> set (colnames t) then cell t p i
      else if p = ''sigma'' then 1
      else 0)"

text \<open>
  Modelled from the spec: \<^verbatim>\<open>make_random_xycoords\<close>
  (\<^verbatim>\<open>photutils.utils._coords\<close>) is not among the sources. By the specification it
  generates centre coordinates within the valid region subject to a minimum pairwise
  separation, and returns at most the requested number of positions, each pair of them
  separated by at least the minimum separation.
\<close>

definition xycoords_contract :: "xycoords_gen \<Rightarrow> bool" where
  "xycoords_contract gen =
     (\<forall>n xrange yrange min_separation seed.
        let cs = gen n xrange yrange min_separation seed
        in length cs \<le> n
           \<and> (\<forall>c \<in> set cs.
                 real_of_int (fst xrange) \<le> fst c \<and> fst c \<le> real_of_int (snd xrange)
               \<and> real_of_int (fst yrange) \<le> snd c \<and> snd c \<le> real_of_int (snd yrange))
           \<and> (\<forall>i < length cs. \<forall>j < length cs. i \<noteq> j \<longrightarrow>
                 min_separation
                   \<le> sqrt ((fst (cs ! i) - fst (cs ! j))\<^sup>2 + (snd (cs ! i) - snd (cs ! j))\<^sup>2)))"

text \<open>
  The window of a source centred at \<open>(y, x)\<close>, clipped to the image: the pixels
  \<open>(i, j)\<close> of the image with \<open>\<lceil>y - h / 2\<rceil> \<le> i < \<lceil>y + h / 2\<rceil>\<close> and
  \<open>\<lceil>x - w / 2\<rceil> \<le> j < \<lceil>x + w / 2\<rceil>\<close> for the window shape \<open>(h, w)\<close>.
\<close>

definition in_clipped_window ::
  "nat \<times> nat \<Rightarrow> int \<times> int \<Rightarrow> real \<times> real \<Rightarrow> nat \<Rightarrow> nat \<Rightarrow> bool" where
  "in_clipped_window shape psf_shape pos i j =
     (i < fst shape \<and> j < snd shape
      \<and> \<lceil>fst pos - real_of_int (fst psf_shape) / 2\<rceil> \<le> int i
      \<and> int i < \<lceil>fst pos + real_of_int (fst psf_shape) / 2\<rceil>
      \<and> \<lceil>snd pos - real_of_int (snd psf_shape) / 2\<rceil> \<le> int j
      \<and> int j < \<lceil>snd pos + real_of_int (snd psf_shape) / 2\<rceil>)"

text \<open>The image and the table of a call that returned.\<close>

definition image_of :: "model \<times> warning list \<times> (error + image \<times> table) \<Rightarrow> image" where
  "image_of r = (case snd (snd r) of Inr (data, tbl) \<Rightarrow> data | Inl e \<Rightarrow> [])"

definition sources_of :: "model \<times> warning list \<times> (error + image \<times> table) \<Rightarrow> table" where
  "sources_of r = (case snd (snd r) of Inr (data, tbl) \<Rightarrow> tbl | Inl e \<Rightarrow> [])"

text \<open>
  Concrete inputs: a generator of positions that returns the two corners of the region
  it is given (the second one only when it is far enough from the first, and as many
  of them as are asked for), a model whose value is its flux, a
  model whose value is its amplitude, a discretizer that always raises, and three
  stores with one table each.
\<close>

definition corner_xycoords :: xycoords_gen where
  "corner_xycoords n xrange yrange min_separation seed =
     (let c1 = (real_of_int (fst xrange), real_of_int (fst yrange));
          c2 = (real_of_int (snd xrange), real_of_int (snd yrange))
      in if fst xrange > snd xrange \<or> fst yrange > snd yrange then []
         else take n
                (if min_separation \<le> 0
                    \<or> min_separation\<^sup>2 \<le> (fst c1 - fst c2)\<^sup>2 + (snd c1 - snd c2)\<^sup>2
                 then [c1, c2] else [c1]))"

definition flux_model :: model where
  "flux_model = bare_model [''flux'', ''x_0'', ''y_0''] (\<lambda>_. 0) (\<lambda>p. Some (\<lambda>x y. p ''flux''))"

definition amplitude_model_ev :: "(string \<Rightarrow> real) \<Rightarrow> (real \<Rightarrow> real \<Rightarrow> real) option" where
  "amplitude_model_ev p = Some (\<lambda>x y. p ''amplitude'')"

definition flux_model_ev :: "(string \<Rightarrow> real) \<Rightarrow> (real \<Rightarrow> real \<Rightarrow> real) option" where
  "flux_model_ev p = Some (\<lambda>x y. p ''flux'')"

definition no_discretizer :: discretizer where
  "no_discretizer m factor = None"

definition flux_store :: store where
  "flux_store = [[(''flux'', [2 * pi])]]"

definition amplitude_store :: store where
  "amplitude_store = [[(''amplitude'', [3])]]"

definition both_store :: store where
  "both_store = [[(''flux'', [5]), (''amplitude'', [3])]]"

text \<open>
  The positions that \<^verbatim>\<open>make_test_psf_data\<close> asks the generator for, given the
  border, and a generator of unit samples that always gives one half.
\<close>

definition xycoords_of ::
  "xycoords_gen \<Rightarrow> nat \<times> nat \<Rightarrow> int \<times> int \<Rightarrow> nat \<Rightarrow> real \<Rightarrow> nat \<Rightarrow> (real \<times> real) list" where
  "xycoords_of gen shape hshape n min_separation seed =
     gen n (snd hshape, int (snd shape) - snd hshape)
       (fst hshape, int (fst shape) - fst hshape) min_separation seed"

definition half_unit :: "nat \<Rightarrow> nat \<Rightarrow> real" where
  "half_unit seed k = 1 / 2"

text \<open>
  A pixel position of an image of shape \<open>(8000000, 8000000)\<close>, one radian away from
  the reference pixel on the sky.
\<close>

definition far_pixel :: "real \<times> real" where
  "far_pixel = (3999999 + 3240000 * sqrt 3 / pi, 3999999 + 3240000 / pi)"

subsection \<open>Properties of the evaluation window\<close>

lemma define_psf_shape_data_shrinks:
  assumes "data_shape m = Some [a, b]" and "oversampling m = None"
    and "tuple_gt ps (a, b)"
  shows "define_psf_shape m ps =
           Inr (min_shape (a, b) ps, [PsfShapeLargerThanModel (min_shape (a, b) ps)])"
  using assms by (simp add: define_psf_shape_def data_model_shape_def Let_def)

text \<open>
  C5. A requested window that exceeds the model's shape on an axis is to be shrunk to
  the per-axis minimum, with a warning. The requested window \<open>(3, 10)\<close> exceeds the
  model shape \<open>(5, 5)\<close> on the second axis, yet it is returned as it is and no warning
  is issued: the comparison of the two tuples is lexicographic and is decided by the
  first axis.
\<close>

theorem define_psf_shape_second_axis_not_shrunk:
  "define_psf_shape (data_model [5, 5]) (3, 10) = Inr ((3, 10), [])"
  by (simp add: define_psf_shape_def data_model_def data_model_shape_def tuple_gt_def)

text \<open>
  C10. A model whose \<^verbatim>\<open>data\<close> attribute has a number of dimensions other than 2
  or 3 reaches the use of \<^verbatim>\<open>model_shape\<close> with no assignment made, and the call
  raises instead of returning a window shape.
\<close>

theorem define_psf_shape_unbound_model_shape:
  assumes "data_shape m = Some shp" and "length shp \<noteq> 2" and "length shp \<noteq> 3"
  shows "define_psf_shape m ps = Inl UnboundLocalError"
  using assms by (simp add: define_psf_shape_def data_model_shape_def)

theorem define_psf_shape_unbound_model_shape_witness:
  "data_shape (data_model [7]) = Some [7] \<and> length [7::int] \<noteq> 2 \<and> length [7::int] \<noteq> 3
   \<and> define_psf_shape (data_model [7]) (3, 3) = Inl UnboundLocalError"
  using define_psf_shape_unbound_model_shape [of "data_model [7]" "[7]" "(3, 3)"]
  by (simp add: data_model_def)

subsection \<open>The model after rendering\<close>

lemma setattr_fields [simp]:
  "param_names (setattr m p v) = param_names m"
  "data_shape (setattr m p v) = data_shape m"
  "oversampling (setattr m p v) = oversampling m"
  "bounding_box (setattr m p v) = bounding_box m"
  "evaluate (setattr m p v) = evaluate m"
  "params (setattr m p v) = (params m)(p := v)"
  by (simp_all add: setattr_def)

lemma same_model_but_refl: "same_model_but S m m"
  by (simp add: same_model_but_def)

lemma same_model_but_setattr:
  "same_model_but S m m' \<Longrightarrow> p \<in> S \<Longrightarrow> same_model_but S m (setattr m' p v)"
  by (auto simp: same_model_but_def)

lemma same_model_but_fold:
  "same_model_but S m m' \<Longrightarrow> set ps \<subseteq> S \<Longrightarrow>
   same_model_but S m (fold (\<lambda>param m'. setattr m' param (g param)) ps m')"
  by (induction ps arbitrary: m') (simp_all add: same_model_but_setattr)

lemma set_row_params_same:
  "same_model_but (set ps) m m' \<Longrightarrow> same_model_but (set ps) m (set_row_params t ps i m')"
  unfolding set_row_params_def by (rule same_model_but_fold) simp_all

lemma fold_setattr_params:
  "params (fold (\<lambda>param m'. setattr m' param (g param)) ps m') =
     (\<lambda>p. if p \<in> set ps then g p else params m' p)"
  by (induction ps rule: rev_induct) (simp_all add: fun_eq_iff)

text \<open>After the inner loop the model has the parameter values of the row.\<close>

lemma set_row_params_eq:
  assumes "same_model_but (set ps) m m'"
  shows "set_row_params t ps i m' =
           m\<lparr>params := (\<lambda>p. if p \<in> set ps then cell t p i else params m p)\<rparr>"
proof -
  have s: "same_model_but (set ps) m (set_row_params t ps i m')"
    using assms by (rule set_row_params_same)
  have p: "params (set_row_params t ps i m') =
             (\<lambda>p. if p \<in> set ps then cell t p i else params m p)"
    using assms by (auto simp: set_row_params_def fold_setattr_params same_model_but_def)
  show ?thesis
    using s p by (intro model.equality) (simp_all add: same_model_but_def)
qed

lemma same_model_but_update:
  "(\<forall>p. p \<notin> S \<longrightarrow> f p = params m p) \<Longrightarrow> same_model_but S m (m\<lparr>params := f\<rparr>)"
  by (simp add: same_model_but_def)

text \<open>The loop over the rows renders the parameter sets of the rows.\<close>

lemma render_rows_render_params:
  assumes "same_model_but (set ps) m m'"
  shows "snd (render_rows disc shape ov t ps rows m' img) =
           render_params disc shape ov m
             (map (\<lambda>i p. if p \<in> set ps then cell t p i else params m p) rows) img"
  using assms
proof (induction rows arbitrary: m' img)
  case Nil
  show ?case by simp
next
  case (Cons i rows)
  let ?m = "m\<lparr>params := (\<lambda>p. if p \<in> set ps then cell t p i else params m p)\<rparr>"
  have e: "set_row_params t ps i m' = ?m"
    using Cons.prems by (rule set_row_params_eq)
  have s: "same_model_but (set ps) m ?m"
    by (rule same_model_but_update) simp
  show ?case
    using Cons.IH [OF s] by (simp add: e Let_def split: option.splits)
qed

text \<open>
  The \<^verbatim>\<open>finally\<close> block changes nothing: each saved reference gives the value
  that the parameter has at that moment.
\<close>

lemma restore_params_noop:
  "restore_params (map (\<lambda>param. (param, param)) ps) m = m"
  unfolding restore_params_def
  by (induction ps arbitrary: m) (simp_all add: setattr_def)

lemma make_model_sources_image_eq:
  "make_model_sources_image disc shape m t oversample =
     render_rows disc shape oversample t (params_to_set m t) [0..<nrows t] m (zeros shape)"
  by (simp add: make_model_sources_image_def Let_def restore_params_noop split: prod.splits)

lemma make_model_sources_image_result:
  "snd (make_model_sources_image disc shape m t oversample) =
     render_params disc shape oversample m
       (map (\<lambda>i p. if p \<in> set (colnames t) \<and> p \<in> set (param_names m) then cell t p i
                    else params m p) [0..<nrows t]) (zeros shape)"
proof -
  have "(\<lambda>i p. if p \<in> set (params_to_set m t) then cell t p i else params m p)
        = (\<lambda>i p. if p \<in> set (colnames t) \<and> p \<in> set (param_names m) then cell t p i
                    else params m p)"
    by (auto simp: params_to_set_def fun_eq_iff)
  moreover have "snd (render_rows disc shape oversample t (params_to_set m t) [0..<nrows t] m
                       (zeros shape)) =
           render_params disc shape oversample m
             (map (\<lambda>i p. if p \<in> set (params_to_set m t) then cell t p i else params m p)
                [0..<nrows t]) (zeros shape)"
    by (rule render_rows_render_params [OF same_model_but_refl])
  ultimately show ?thesis
    by (simp add: make_model_sources_image_eq)
qed

text \<open>
  The renderer leaves the caller's model changed as well: with one row of amplitude 3,
  the amplitude of the model is 1 on entry and 3 on return.
\<close>

lemma make_model_sources_image_leaves_model_changed:
  "params (fst (make_model_sources_image no_discretizer (1, 1) (Gaussian2D amplitude_model_ev)
                  [(''amplitude'', [3])] 1)) ''amplitude'' = 3
   \<and> params (Gaussian2D amplitude_model_ev) ''amplitude'' = 1"
  by (simp add: make_model_sources_image_eq params_to_set_def colnames_def nrows_def
      Gaussian2D_def bare_model_def set_row_params_def cell_def column_def source_image_def
      amplitude_model_ev_def Let_def)

text \<open>
  C1. Every operation that overwrites parameters of the caller's model restores them
  before it returns. \<^verbatim>\<open>make_test_psf_data\<close> does not: it sets \<^verbatim>\<open>x_0\<close>,
  \<^verbatim>\<open>y_0\<close> and \<^verbatim>\<open>flux\<close> for each source, has no step that writes saved
  values back, and returns with the values of the last source in the model. Here the
  flux of the model is 0 on entry and 550 on return.
\<close>

theorem make_test_psf_data_leaves_model_changed:
  "params (fst (make_test_psf_data corner_xycoords half_unit (10, 10) flux_model (3, 3) 1
                  (100, 1000) 1 0 None)) ''flux'' = 550
   \<and> params flux_model ''flux'' = 0"
  by (simp add: make_test_psf_data_def define_psf_shape_def flux_model_def bare_model_def
      hshape_of_def corner_xycoords_def uniform_def half_unit_def nrows_def cell_def column_def
      overlap_slices_def setattr_def Let_def)

subsection \<open>The image container\<close>

text \<open>
  C8. \<^verbatim>\<open>make_imagehdu\<close> raises exactly when the data is not 2-dimensional; for
  2-dimensional data it returns the container that holds the data, with the header of
  the coordinate system exactly when one is supplied.
\<close>

theorem make_imagehdu_2d:
  "((\<exists>e. make_imagehdu to_header d w = Inl e) \<longleftrightarrow> length (shape_of d) \<noteq> 2) \<and>
   (length (shape_of d) = 2 \<longrightarrow>
      make_imagehdu to_header d w = Inr \<lparr>hdu_data = d, hdu_header = map_option to_header w\<rparr>
      \<and> (map_option to_header w = None \<longleftrightarrow> w = None))"
  by (cases w) (simp_all add: make_imagehdu_def)

theorem make_imagehdu_2d_witness:
  "length (shape_of \<lparr>shape_of = [2, 1], entries = [1::int, 2]\<rparr>) = 2
   \<and> make_imagehdu (\<lambda>w::nat. Suc w) \<lparr>shape_of = [2, 1], entries = [1::int, 2]\<rparr> (Some 4)
       = Inr \<lparr>hdu_data = \<lparr>shape_of = [2, 1], entries = [1, 2]\<rparr>, hdu_header = Some 5\<rparr>
   \<and> make_imagehdu (\<lambda>w::nat. Suc w) \<lparr>shape_of = [2, 1], entries = [1::int, 2]\<rparr> None
       = Inr \<lparr>hdu_data = \<lparr>shape_of = [2, 1], entries = [1, 2]\<rparr>, hdu_header = None\<rparr>
   \<and> (\<exists>e. make_imagehdu (\<lambda>w::nat. Suc w) \<lparr>shape_of = [2], entries = [1::int, 2]\<rparr> (Some 4) = Inl e)"
  using make_imagehdu_2d [of "\<lambda>w::nat. Suc w" "\<lparr>shape_of = [2, 1], entries = [1::int, 2]\<rparr>" "Some 4"]
    make_imagehdu_2d [of "\<lambda>w::nat. Suc w" "\<lparr>shape_of = [2, 1], entries = [1::int, 2]\<rparr>" None]
    make_imagehdu_2d [of "\<lambda>w::nat. Suc w" "\<lparr>shape_of = [2], entries = [1::int, 2]\<rparr>" "Some 4"]
  by simp

subsection \<open>The Gaussian wrappers\<close>

lemma colnames_append [simp]: "colnames (t @ [(name, col)]) = colnames t @ [name]"
  by (simp add: colnames_def)

lemma nrows_append: "t \<noteq> [] \<Longrightarrow> nrows (t @ u) = nrows t"
  by (cases t) (simp_all add: nrows_def)

lemma map_of_colnames: "map_of t name = None \<longleftrightarrow> name \<notin> set (colnames t)"
  by (simp add: colnames_def map_of_eq_None_iff)

lemma column_append_old:
  "p \<in> set (colnames t) \<Longrightarrow> column (t @ u) p = column t p"
  by (auto simp: column_def map_add_def map_of_colnames split: option.splits)

lemma column_append_new:
  "name \<notin> set (colnames t) \<Longrightarrow> column (t @ [(name, col)]) name = col"
  by (simp add: column_def map_add_def map_of_colnames [symmetric])

lemma table_ok_column_length:
  assumes "table_ok t" and "name \<in> set (colnames t)"
  shows "length (column t name) = nrows t"
proof -
  from assms(2) obtain c where c: "map_of t name = Some c"
    using map_of_colnames [of t name] by (cases "map_of t name") auto
  then have "(name, c) \<in> set t" by (rule map_of_SomeD)
  with assms(1) have "length c = nrows t" by (auto simp: table_ok_def)
  with c show ?thesis by (simp add: column_def)
qed

lemma broadcast_stddev:
  assumes "table_ok t" and "params m name = 1"
  shows "length (broadcast (nrows t) (stddev_of t m name)) = nrows t"
    and "i < nrows t \<Longrightarrow> broadcast (nrows t) (stddev_of t m name) ! i = gaussian_stddev t name i"
proof -
  show "length (broadcast (nrows t) (stddev_of t m name)) = nrows t"
  proof (cases "map_of t name")
    case None
    then show ?thesis by (simp add: stddev_of_def broadcast_def)
  next
    case (Some c)
    then have "name \<in> set (colnames t)" using map_of_colnames [of t name] by simp
    with assms(1) have "length (column t name) = nrows t" by (rule table_ok_column_length)
    with Some show ?thesis by (simp add: stddev_of_def broadcast_def column_def)
  qed
  show "broadcast (nrows t) (stddev_of t m name) ! i = gaussian_stddev t name i" if "i < nrows t"
  proof (cases "map_of t name")
    case None
    then have "name \<notin> set (colnames t)" using map_of_colnames [of t name] by simp
    with None that assms(2) show ?thesis
      by (simp add: stddev_of_def broadcast_def gaussian_stddev_def)
  next
    case (Some c)
    then have "name \<in> set (colnames t)" using map_of_colnames [of t name] by simp
    with Some show ?thesis
      by (simp add: stddev_of_def broadcast_def gaussian_stddev_def cell_def column_def)
  qed
qed

lemma flux_to_amplitude_Some:
  assumes "length flux = n" and "length xs = n" and "length ys = n"
    and "\<forall>i<n. xs ! i * ys ! i \<noteq> 0"
    and "broadcast n xstd = xs" and "broadcast n ystd = ys"
  shows "\<exists>amps. flux_to_amplitude flux xstd ystd = Some amps \<and> length amps = n
           \<and> (\<forall>i<n. amps ! i = flux ! i / (2 * pi * xs ! i * ys ! i))"
proof -
  let ?d = "map2 (\<lambda>sx sy. 2 * pi * sx * sy) xs ys"
  have ld: "length ?d = n" using assms(2,3) by simp
  have nth: "?d ! i = 2 * pi * xs ! i * ys ! i" if "i < n" for i
    using that assms(2,3) by simp
  have nz: "0 \<notin> set ?d"
  proof
    assume "0 \<in> set ?d"
    then obtain i where i: "i < length ?d" and z: "?d ! i = 0"
      by (auto simp: in_set_conv_nth)
    from i have "i < n" unfolding ld .
    with z nth assms(4) show False by auto
  qed
  have "flux_to_amplitude flux xstd ystd = Some (map2 (\<lambda>f d. f / d) flux ?d)"
    using nz by (simp add: flux_to_amplitude_def assms(1,5,6) Let_def)
  moreover have "length (map2 (\<lambda>f d. f / d) flux ?d) = n"
    using assms(1) ld by simp
  moreover have "\<forall>i<n. map2 (\<lambda>f d. f / d) flux ?d ! i = flux ! i / (2 * pi * xs ! i * ys ! i)"
    using assms(1) ld nth by simp
  ultimately show ?thesis by blast
qed

lemma amplitude_to_flux_nth:
  assumes "length am = n" and "length (broadcast n s) = n"
  shows "length (amplitude_to_flux am s) = n"
    and "i < n \<Longrightarrow> amplitude_to_flux am s ! i
           = am ! i * (2 * pi * broadcast n s ! i * broadcast n s ! i)"
  using assms by (simp_all add: amplitude_to_flux_def)

lemma Gaussian2D_fields:
  "set (param_names (Gaussian2D ev)) =
     {''amplitude'', ''x_mean'', ''y_mean'', ''x_stddev'', ''y_stddev'', ''theta''}"
  "params (Gaussian2D ev) p =
     (if p = ''amplitude'' \<or> p = ''x_stddev'' \<or> p = ''y_stddev'' then 1 else 0)"
  by (auto simp: Gaussian2D_def bare_model_def)

lemma PRF_fields:
  "set (param_names (IntegratedGaussianPRF ev)) = {''flux'', ''x_0'', ''y_0'', ''sigma''}"
  "params (IntegratedGaussianPRF ev) p = (if p = ''flux'' \<or> p = ''sigma'' then 1 else 0)"
  by (auto simp: IntegratedGaussianPRF_def bare_model_def)

lemma gaussian_params_as_is:
  assumes "\<not> (''flux'' \<in> set (colnames t) \<and> ''amplitude'' \<notin> set (colnames t))"
  shows "(\<lambda>p. if p \<in> set (colnames t) \<and> p \<in> set (param_names (Gaussian2D ev))
               then cell t p i else params (Gaussian2D ev) p) = gaussian_source_params t i"
proof
  fix p
  show "(if p \<in> set (colnames t) \<and> p \<in> set (param_names (Gaussian2D ev))
         then cell t p i else params (Gaussian2D ev) p) = gaussian_source_params t i p"
    using assms
    by (cases "p = ''amplitude''")
       (auto simp: Gaussian2D_fields gaussian_source_params_def)
qed

lemma gaussian_params_converted:
  assumes "''flux'' \<in> set (colnames t)" and "''amplitude'' \<notin> set (colnames t)"
    and "amps ! i = cell t ''flux'' i
           / (2 * pi * gaussian_stddev t ''x_stddev'' i * gaussian_stddev t ''y_stddev'' i)"
  shows "(\<lambda>p. if p \<in> set (colnames (t @ [(''amplitude'', amps)]))
                  \<and> p \<in> set (param_names (Gaussian2D ev))
               then cell (t @ [(''amplitude'', amps)]) p i else params (Gaussian2D ev) p)
         = gaussian_source_params t i"
proof
  fix p
  let ?t = "t @ [(''amplitude'', amps)]"
  show "(if p \<in> set (colnames ?t) \<and> p \<in> set (param_names (Gaussian2D ev))
         then cell ?t p i else params (Gaussian2D ev) p) = gaussian_source_params t i p"
  proof (cases "p = ''amplitude''")
    case True
    then show ?thesis
      using assms
      by (simp add: Gaussian2D_fields gaussian_source_params_def cell_def column_append_new)
  next
    case False
    then show ?thesis
      by (auto simp: Gaussian2D_fields gaussian_source_params_def cell_def column_append_old)
  qed
qed

lemma prf_params_as_is:
  assumes "\<not> (''flux'' \<notin> set (colnames t) \<and> ''amplitude'' \<in> set (colnames t))"
  shows "(\<lambda>p. if p \<in> set (colnames t) \<and> p \<in> set (param_names (IntegratedGaussianPRF ev))
               then cell t p i else params (IntegratedGaussianPRF ev) p) = prf_source_params t i"
proof
  fix p
  show "(if p \<in> set (colnames t) \<and> p \<in> set (param_names (IntegratedGaussianPRF ev))
         then cell t p i else params (IntegratedGaussianPRF ev) p) = prf_source_params t i p"
    using assms
    by (cases "p = ''flux''") (auto simp: PRF_fields prf_source_params_def)
qed

lemma prf_params_converted:
  assumes "''flux'' \<notin> set (colnames t)" and "''amplitude'' \<in> set (colnames t)"
    and "fl ! i = cell t ''amplitude'' i
           * (2 * pi * gaussian_stddev t ''sigma'' i * gaussian_stddev t ''sigma'' i)"
  shows "(\<lambda>p. if p \<in> set (colnames (t @ [(''flux'', fl)]))
                  \<and> p \<in> set (param_names (IntegratedGaussianPRF ev))
               then cell (t @ [(''flux'', fl)]) p i else params (IntegratedGaussianPRF ev) p)
         = prf_source_params t i"
proof
  fix p
  let ?t = "t @ [(''flux'', fl)]"
  show "(if p \<in> set (colnames ?t) \<and> p \<in> set (param_names (IntegratedGaussianPRF ev))
         then cell ?t p i else params (IntegratedGaussianPRF ev) p) = prf_source_params t i p"
  proof (cases "p = ''flux''")
    case True
    then show ?thesis
      using assms
      by (simp add: PRF_fields prf_source_params_def cell_def column_append_new)
  next
    case False
    then show ?thesis
      by (auto simp: PRF_fields prf_source_params_def cell_def column_append_old)
  qed
qed

text \<open>What each wrapper returns, by the columns of the table.\<close>

lemma gaussian_wrapper_converts:
  assumes ok: "table_ok (h ! a)"
    and fl: "''flux'' \<in> set (colnames (h ! a))" and am: "''amplitude'' \<notin> set (colnames (h ! a))"
    and nz: "\<forall>i<nrows (h ! a). gaussian_stddev (h ! a) ''x_stddev'' i
                                 * gaussian_stddev (h ! a) ''y_stddev'' i \<noteq> 0"
  shows "make_gaussian_sources_image ev disc h shape a oversample =
           (h @ [h ! a @ [(''amplitude'',
                   map (\<lambda>i. cell (h ! a) ''flux'' i
                              / (2 * pi * gaussian_stddev (h ! a) ''x_stddev'' i
                                   * gaussian_stddev (h ! a) ''y_stddev'' i))
                     [0..<nrows (h ! a)])]],
            render_params disc shape oversample (Gaussian2D ev)
              (map (gaussian_source_params (h ! a)) [0..<nrows (h ! a)]) (zeros shape))"
proof -
  let ?t = "h ! a" and ?m = "Gaussian2D ev"
  let ?n = "nrows ?t"
  let ?xs = "broadcast ?n (stddev_of ?t ?m ''x_stddev'')"
  let ?ys = "broadcast ?n (stddev_of ?t ?m ''y_stddev'')"
  have px: "params ?m ''x_stddev'' = 1" and py: "params ?m ''y_stddev'' = 1"
    by (simp_all add: Gaussian2D_fields)
  have lf: "length (column ?t ''flux'') = ?n"
    using ok fl by (rule table_ok_column_length)
  have lx: "length ?xs = ?n" and ly: "length ?ys = ?n"
    using broadcast_stddev(1) [OF ok px] broadcast_stddev(1) [OF ok py] by simp_all
  have nx: "\<forall>i<?n. ?xs ! i * ?ys ! i \<noteq> 0"
    using nz broadcast_stddev(2) [OF ok px] broadcast_stddev(2) [OF ok py] by simp
  from flux_to_amplitude_Some [OF lf lx ly nx refl refl]
  obtain amps where a1: "flux_to_amplitude (column ?t ''flux'') (stddev_of ?t ?m ''x_stddev'')
                           (stddev_of ?t ?m ''y_stddev'') = Some amps"
    and la: "length amps = ?n"
    and na: "\<forall>i<?n. amps ! i = column ?t ''flux'' ! i / (2 * pi * ?xs ! i * ?ys ! i)"
    by blast
  have na': "amps ! i = cell ?t ''flux'' i
               / (2 * pi * gaussian_stddev ?t ''x_stddev'' i * gaussian_stddev ?t ''y_stddev'' i)"
    if "i < ?n" for i
    using that na broadcast_stddev(2) [OF ok px that] broadcast_stddev(2) [OF ok py that]
    by (simp add: cell_def)
  have amps: "amps = map (\<lambda>i. cell ?t ''flux'' i
                              / (2 * pi * gaussian_stddev ?t ''x_stddev'' i
                                   * gaussian_stddev ?t ''y_stddev'' i)) [0..<?n]"
    using la na' by (intro nth_equalityI) simp_all
  let ?t' = "?t @ [(''amplitude'', amps)]"
  have ne: "?t \<noteq> []" using fl by (auto simp: colnames_def)
  have nr: "nrows ?t' = ?n" using ne by (rule nrows_append)
  have "snd (make_model_sources_image disc shape ?m ?t' oversample) =
          render_params disc shape oversample ?m
            (map (\<lambda>i p. if p \<in> set (colnames ?t') \<and> p \<in> set (param_names ?m)
                          then cell ?t' p i else params ?m p) [0..<?n]) (zeros shape)"
    using make_model_sources_image_result [of disc shape ?m ?t' oversample] by (simp only: nr)
  also have "map (\<lambda>i p. if p \<in> set (colnames ?t') \<and> p \<in> set (param_names ?m)
                          then cell ?t' p i else params ?m p) [0..<?n]
             = map (gaussian_source_params ?t) [0..<?n]"
  proof (rule map_cong [OF refl])
    fix i assume "i \<in> set [0..<?n]"
    then have "i < ?n" by simp
    then show "(\<lambda>p. if p \<in> set (colnames ?t') \<and> p \<in> set (param_names ?m)
                     then cell ?t' p i else params ?m p) = gaussian_source_params ?t i"
      using fl am na' by (intro gaussian_params_converted) simp_all
  qed
  finally have r: "snd (make_model_sources_image disc shape ?m ?t' oversample) =
          render_params disc shape oversample ?m
            (map (gaussian_source_params ?t) [0..<?n]) (zeros shape)" .
  have "make_gaussian_sources_image ev disc h shape a oversample =
          (h @ [?t'], snd (make_model_sources_image disc shape ?m ?t' oversample))"
    using fl am a1
    by (simp add: make_gaussian_sources_image_def copy_table_def setitem_def Let_def
        set_column_def)
  then show ?thesis
    by (simp only: r amps [symmetric])
qed

lemma gaussian_wrapper_as_is:
  assumes "\<not> (''flux'' \<in> set (colnames (h ! a)) \<and> ''amplitude'' \<notin> set (colnames (h ! a)))"
  shows "make_gaussian_sources_image ev disc h shape a oversample =
           (h, render_params disc shape oversample (Gaussian2D ev)
                 (map (gaussian_source_params (h ! a)) [0..<nrows (h ! a)]) (zeros shape))"
proof -
  have "make_gaussian_sources_image ev disc h shape a oversample =
          (h, snd (make_model_sources_image disc shape (Gaussian2D ev) (h ! a) oversample))"
    using assms by (auto simp: make_gaussian_sources_image_def Let_def)
  then show ?thesis
    by (simp only: make_model_sources_image_result gaussian_params_as_is [OF assms])
qed

lemma prf_wrapper_converts:
  assumes ok: "table_ok (h ! a)"
    and fl: "''flux'' \<notin> set (colnames (h ! a))" and am: "''amplitude'' \<in> set (colnames (h ! a))"
  shows "make_gaussian_prf_sources_image ev disc h shape a =
           (h @ [h ! a @ [(''flux'',
                   map (\<lambda>i. cell (h ! a) ''amplitude'' i
                              * (2 * pi * gaussian_stddev (h ! a) ''sigma'' i
                                   * gaussian_stddev (h ! a) ''sigma'' i))
                     [0..<nrows (h ! a)])]],
            render_params disc shape 1 (IntegratedGaussianPRF ev)
              (map (prf_source_params (h ! a)) [0..<nrows (h ! a)]) (zeros shape))"
proof -
  let ?t = "h ! a" and ?m = "IntegratedGaussianPRF ev"
  let ?n = "nrows ?t"
  let ?fl = "amplitude_to_flux (column ?t ''amplitude'') (stddev_of ?t ?m ''sigma'')"
  have ps: "params ?m ''sigma'' = 1" by (simp add: PRF_fields)
  have lam: "length (column ?t ''amplitude'') = ?n"
    using ok am by (rule table_ok_column_length)
  have ls: "length (broadcast ?n (stddev_of ?t ?m ''sigma'')) = ?n"
    by (rule broadcast_stddev(1) [OF ok ps])
  have lfl: "length ?fl = ?n"
    using amplitude_to_flux_nth(1) [OF lam] ls by (simp add: lam)
  have nfl: "?fl ! i = cell ?t ''amplitude'' i
               * (2 * pi * gaussian_stddev ?t ''sigma'' i * gaussian_stddev ?t ''sigma'' i)"
    if "i < ?n" for i
  proof -
    have "?fl ! i = column ?t ''amplitude'' ! i
            * (2 * pi * broadcast ?n (stddev_of ?t ?m ''sigma'') ! i
                 * broadcast ?n (stddev_of ?t ?m ''sigma'') ! i)"
      using amplitude_to_flux_nth(2) [OF lam _ that, of "stddev_of ?t ?m ''sigma''"] ls
      by (simp add: lam)
    then show ?thesis
      using broadcast_stddev(2) [OF ok ps that] by (simp add: cell_def)
  qed
  have fl_eq: "?fl = map (\<lambda>i. cell ?t ''amplitude'' i
                              * (2 * pi * gaussian_stddev ?t ''sigma'' i
                                   * gaussian_stddev ?t ''sigma'' i)) [0..<?n]"
    using lfl nfl by (intro nth_equalityI) simp_all
  let ?t' = "?t @ [(''flux'', ?fl)]"
  have ne: "?t \<noteq> []" using am by (auto simp: colnames_def)
  have nr: "nrows ?t' = ?n" using ne by (rule nrows_append)
  have "snd (make_model_sources_image disc shape ?m ?t' 1) =
          render_params disc shape 1 ?m
            (map (\<lambda>i p. if p \<in> set (colnames ?t') \<and> p \<in> set (param_names ?m)
                          then cell ?t' p i else params ?m p) [0..<?n]) (zeros shape)"
    using make_model_sources_image_result [of disc shape ?m ?t' 1] by (simp only: nr)
  also have "map (\<lambda>i p. if p \<in> set (colnames ?t') \<and> p \<in> set (param_names ?m)
                          then cell ?t' p i else params ?m p) [0..<?n]
             = map (prf_source_params ?t) [0..<?n]"
  proof (rule map_cong [OF refl])
    fix i assume "i \<in> set [0..<?n]"
    then have "i < ?n" by simp
    then show "(\<lambda>p. if p \<in> set (colnames ?t') \<and> p \<in> set (param_names ?m)
                     then cell ?t' p i else params ?m p) = prf_source_params ?t i"
      using fl am nfl by (intro prf_params_converted) simp_all
  qed
  finally have r: "snd (make_model_sources_image disc shape ?m ?t' 1) =
          render_params disc shape 1 ?m (map (prf_source_params ?t) [0..<?n]) (zeros shape)" .
  have "make_gaussian_prf_sources_image ev disc h shape a =
          (h @ [?t'], snd (make_model_sources_image disc shape ?m ?t' 1))"
    using fl am
    by (simp add: make_gaussian_prf_sources_image_def copy_table_def setitem_def Let_def
        set_column_def)
  then show ?thesis
    by (simp only: r fl_eq [symmetric])
qed

lemma prf_wrapper_as_is:
  assumes "\<not> (''flux'' \<notin> set (colnames (h ! a)) \<and> ''amplitude'' \<in> set (colnames (h ! a)))"
  shows "make_gaussian_prf_sources_image ev disc h shape a =
           (h, render_params disc shape 1 (IntegratedGaussianPRF ev)
                 (map (prf_source_params (h ! a)) [0..<nrows (h ! a)]) (zeros shape))"
proof -
  have "make_gaussian_prf_sources_image ev disc h shape a =
          (h, snd (make_model_sources_image disc shape (IntegratedGaussianPRF ev) (h ! a) 1))"
    using assms by (auto simp: make_gaussian_prf_sources_image_def Let_def)
  then show ?thesis
    by (simp only: make_model_sources_image_result prf_params_as_is [OF assms])
qed

lemma table_ok_stores:
  "table_ok (flux_store ! 0)" "table_ok (amplitude_store ! 0)" "table_ok (both_store ! 0)"
  by (simp_all add: table_ok_def flux_store_def amplitude_store_def both_store_def
      colnames_def nrows_def)

lemma render_one_gaussian:
  "render_params no_discretizer (1, 1) 1 (Gaussian2D amplitude_model_ev) [p] (zeros (1, 1))
     = Inr [[p ''amplitude'']]"
  by (simp add: source_image_def Gaussian2D_def bare_model_def amplitude_model_ev_def
      pixel_grid_def image_plus_def zeros_def)

lemma render_one_prf:
  "render_params no_discretizer (1, 1) 1 (IntegratedGaussianPRF flux_model_ev) [p] (zeros (1, 1))
     = Inr [[p ''flux'']]"
  by (simp add: source_image_def IntegratedGaussianPRF_def bare_model_def flux_model_ev_def
      pixel_grid_def image_plus_def zeros_def)

text \<open>
  C3. Each wrapper renders, for every row of a well-formed table, the model with the
  parameter values of \<open>gaussian_source_params\<close> and \<open>prf_source_params\<close>: the
  Gaussian wrapper takes the amplitude of the table when there is one (the flux is then
  not read) and flux / (2 pi sigma_x sigma_y) otherwise; the PRF wrapper takes the flux
  of the table when there is one (the amplitude is then not read) and
  amplitude * 2 pi sigma sigma otherwise. The missing column is computed before the
  renderer is called: it is the last column of the copy that the renderer reads, so
  that flux = amplitude * 2 pi sigma_x sigma_y holds in every row. With both columns
  present no copy is made. For the division, the standard deviations of the rows are
  taken to be non-zero.
\<close>

theorem wrappers_convert_flux_amplitude:
  assumes "table_ok (h ! a)"
    and "''flux'' \<in> set (colnames (h ! a)) \<and> ''amplitude'' \<notin> set (colnames (h ! a)) \<longrightarrow>
           (\<forall>i<nrows (h ! a). gaussian_stddev (h ! a) ''x_stddev'' i
                                 * gaussian_stddev (h ! a) ''y_stddev'' i \<noteq> 0)"
  shows "snd (make_gaussian_sources_image ev disc h shape a oversample) =
           render_params disc shape oversample (Gaussian2D ev)
             (map (gaussian_source_params (h ! a)) [0..<nrows (h ! a)]) (zeros shape)
       \<and> snd (make_gaussian_prf_sources_image ev disc h shape a) =
           render_params disc shape 1 (IntegratedGaussianPRF ev)
             (map (prf_source_params (h ! a)) [0..<nrows (h ! a)]) (zeros shape)
       \<and> (''flux'' \<in> set (colnames (h ! a)) \<and> ''amplitude'' \<notin> set (colnames (h ! a)) \<longrightarrow>
            fst (make_gaussian_sources_image ev disc h shape a oversample) =
              h @ [h ! a @ [(''amplitude'',
                     map (\<lambda>i. cell (h ! a) ''flux'' i
                                / (2 * pi * gaussian_stddev (h ! a) ''x_stddev'' i
                                     * gaussian_stddev (h ! a) ''y_stddev'' i))
                       [0..<nrows (h ! a)])]]
          \<and> (\<forall>i<nrows (h ! a).
                cell (h ! a) ''flux'' i =
                  gaussian_source_params (h ! a) i ''amplitude''
                    * (2 * pi * gaussian_stddev (h ! a) ''x_stddev'' i
                         * gaussian_stddev (h ! a) ''y_stddev'' i)))
       \<and> (''flux'' \<notin> set (colnames (h ! a)) \<and> ''amplitude'' \<in> set (colnames (h ! a)) \<longrightarrow>
            fst (make_gaussian_prf_sources_image ev disc h shape a) =
              h @ [h ! a @ [(''flux'',
                     map (\<lambda>i. cell (h ! a) ''amplitude'' i
                                * (2 * pi * gaussian_stddev (h ! a) ''sigma'' i
                                     * gaussian_stddev (h ! a) ''sigma'' i))
                       [0..<nrows (h ! a)])]]
          \<and> (\<forall>i<nrows (h ! a).
                prf_source_params (h ! a) i ''flux'' =
                  cell (h ! a) ''amplitude'' i
                    * (2 * pi * gaussian_stddev (h ! a) ''sigma'' i
                         * gaussian_stddev (h ! a) ''sigma'' i)))
       \<and> (''flux'' \<in> set (colnames (h ! a)) \<and> ''amplitude'' \<in> set (colnames (h ! a)) \<longrightarrow>
            fst (make_gaussian_sources_image ev disc h shape a oversample) = h
          \<and> fst (make_gaussian_prf_sources_image ev disc h shape a) = h
          \<and> (\<forall>i. gaussian_source_params (h ! a) i ''amplitude'' = cell (h ! a) ''amplitude'' i
                 \<and> prf_source_params (h ! a) i ''flux'' = cell (h ! a) ''flux'' i))"
proof -
  let ?t = "h ! a"
  let ?G = "''flux'' \<in> set (colnames ?t) \<and> ''amplitude'' \<notin> set (colnames ?t)"
  let ?P = "''flux'' \<notin> set (colnames ?t) \<and> ''amplitude'' \<in> set (colnames ?t)"
  have g: "snd (make_gaussian_sources_image ev disc h shape a oversample) =
           render_params disc shape oversample (Gaussian2D ev)
             (map (gaussian_source_params ?t) [0..<nrows ?t]) (zeros shape)"
  proof (cases ?G)
    case True
    with assms show ?thesis by (simp add: gaussian_wrapper_converts)
  next
    case False
    then show ?thesis using gaussian_wrapper_as_is [of h a ev disc shape oversample] by simp
  qed
  have p: "snd (make_gaussian_prf_sources_image ev disc h shape a) =
           render_params disc shape 1 (IntegratedGaussianPRF ev)
             (map (prf_source_params ?t) [0..<nrows ?t]) (zeros shape)"
  proof (cases ?P)
    case True
    with assms(1) show ?thesis by (simp add: prf_wrapper_converts)
  next
    case False
    then show ?thesis using prf_wrapper_as_is [of h a ev disc shape] by simp
  qed
  have gc: "fst (make_gaussian_sources_image ev disc h shape a oversample) =
              h @ [?t @ [(''amplitude'',
                     map (\<lambda>i. cell ?t ''flux'' i
                                / (2 * pi * gaussian_stddev ?t ''x_stddev'' i
                                     * gaussian_stddev ?t ''y_stddev'' i))
                       [0..<nrows ?t])]]
          \<and> (\<forall>i<nrows ?t.
                cell ?t ''flux'' i =
                  gaussian_source_params ?t i ''amplitude''
                    * (2 * pi * gaussian_stddev ?t ''x_stddev'' i
                         * gaussian_stddev ?t ''y_stddev'' i))" if ?G
    using that assms by (simp add: gaussian_wrapper_converts gaussian_source_params_def)
  have pc: "fst (make_gaussian_prf_sources_image ev disc h shape a) =
              h @ [?t @ [(''flux'',
                     map (\<lambda>i. cell ?t ''amplitude'' i
                                * (2 * pi * gaussian_stddev ?t ''sigma'' i
                                     * gaussian_stddev ?t ''sigma'' i))
                       [0..<nrows ?t])]]
          \<and> (\<forall>i<nrows ?t.
                prf_source_params ?t i ''flux'' =
                  cell ?t ''amplitude'' i
                    * (2 * pi * gaussian_stddev ?t ''sigma'' i
                         * gaussian_stddev ?t ''sigma'' i))" if ?P
    using that assms(1) by (simp add: prf_wrapper_converts prf_source_params_def)
  have b: "fst (make_gaussian_sources_image ev disc h shape a oversample) = h
          \<and> fst (make_gaussian_prf_sources_image ev disc h shape a) = h
          \<and> (\<forall>i. gaussian_source_params ?t i ''amplitude'' = cell ?t ''amplitude'' i
                 \<and> prf_source_params ?t i ''flux'' = cell ?t ''flux'' i)"
    if "''flux'' \<in> set (colnames ?t) \<and> ''amplitude'' \<in> set (colnames ?t)"
    using that
    by (simp add: gaussian_wrapper_as_is prf_wrapper_as_is gaussian_source_params_def
        prf_source_params_def)
  from g p gc pc b show ?thesis by blast
qed

theorem wrappers_convert_flux_amplitude_witness:
  "table_ok (flux_store ! 0)
   \<and> ''flux'' \<in> set (colnames (flux_store ! 0)) \<and> ''amplitude'' \<notin> set (colnames (flux_store ! 0))
   \<and> gaussian_stddev (flux_store ! 0) ''x_stddev'' 0
       * gaussian_stddev (flux_store ! 0) ''y_stddev'' 0 \<noteq> 0
   \<and> snd (make_gaussian_sources_image amplitude_model_ev no_discretizer flux_store (1, 1) 0 1)
       = Inr [[1]]
   \<and> fst (make_gaussian_sources_image amplitude_model_ev no_discretizer flux_store (1, 1) 0 1)
       = [[(''flux'', [2 * pi])], [(''flux'', [2 * pi]), (''amplitude'', [1])]]
   \<and> table_ok (amplitude_store ! 0)
   \<and> ''flux'' \<notin> set (colnames (amplitude_store ! 0))
   \<and> ''amplitude'' \<in> set (colnames (amplitude_store ! 0))
   \<and> snd (make_gaussian_prf_sources_image flux_model_ev no_discretizer amplitude_store (1, 1) 0)
       = Inr [[3 * (2 * pi)]]
   \<and> fst (make_gaussian_prf_sources_image flux_model_ev no_discretizer amplitude_store (1, 1) 0)
       = [[(''amplitude'', [3])], [(''amplitude'', [3]), (''flux'', [3 * (2 * pi)])]]
   \<and> table_ok (both_store ! 0)
   \<and> ''flux'' \<in> set (colnames (both_store ! 0)) \<and> ''amplitude'' \<in> set (colnames (both_store ! 0))
   \<and> snd (make_gaussian_sources_image amplitude_model_ev no_discretizer both_store (1, 1) 0 1)
       = Inr [[3]]
   \<and> snd (make_gaussian_prf_sources_image flux_model_ev no_discretizer both_store (1, 1) 0)
       = Inr [[5]]"
proof -
  have f: "''flux'' \<in> set (colnames (flux_store ! 0))
           \<and> ''amplitude'' \<notin> set (colnames (flux_store ! 0))"
    by (simp add: flux_store_def colnames_def)
  have fz: "gaussian_stddev (flux_store ! 0) ''x_stddev'' 0
              * gaussian_stddev (flux_store ! 0) ''y_stddev'' 0 \<noteq> 0"
    by (simp add: gaussian_stddev_def flux_store_def colnames_def)
  have fn: "nrows (flux_store ! 0) = 1" by (simp add: flux_store_def nrows_def)
  have fh: "''flux'' \<in> set (colnames (flux_store ! 0))
              \<and> ''amplitude'' \<notin> set (colnames (flux_store ! 0)) \<longrightarrow>
            (\<forall>i<nrows (flux_store ! 0). gaussian_stddev (flux_store ! 0) ''x_stddev'' i
                                 * gaussian_stddev (flux_store ! 0) ''y_stddev'' i \<noteq> 0)"
    using fz by (simp add: fn)
  have am: "''flux'' \<notin> set (colnames (amplitude_store ! 0))
            \<and> ''amplitude'' \<in> set (colnames (amplitude_store ! 0))"
    by (simp add: amplitude_store_def colnames_def)
  have an: "nrows (amplitude_store ! 0) = 1" by (simp add: amplitude_store_def nrows_def)
  have ah: "''flux'' \<in> set (colnames (amplitude_store ! 0))
              \<and> ''amplitude'' \<notin> set (colnames (amplitude_store ! 0)) \<longrightarrow>
            (\<forall>i<nrows (amplitude_store ! 0). gaussian_stddev (amplitude_store ! 0) ''x_stddev'' i
                                 * gaussian_stddev (amplitude_store ! 0) ''y_stddev'' i \<noteq> 0)"
    using am by simp
  have b: "''flux'' \<in> set (colnames (both_store ! 0))
           \<and> ''amplitude'' \<in> set (colnames (both_store ! 0))"
    by (simp add: both_store_def colnames_def)
  have bn: "nrows (both_store ! 0) = 1" by (simp add: both_store_def nrows_def)
  have bh: "''flux'' \<in> set (colnames (both_store ! 0))
              \<and> ''amplitude'' \<notin> set (colnames (both_store ! 0)) \<longrightarrow>
            (\<forall>i<nrows (both_store ! 0). gaussian_stddev (both_store ! 0) ''x_stddev'' i
                                 * gaussian_stddev (both_store ! 0) ''y_stddev'' i \<noteq> 0)"
    using b by simp
  have v1: "gaussian_source_params (flux_store ! 0) 0 ''amplitude'' = 1"
    by (simp add: gaussian_source_params_def gaussian_stddev_def flux_store_def colnames_def
        cell_def column_def)
  have v2: "prf_source_params (amplitude_store ! 0) 0 ''flux'' = 3 * (2 * pi)"
    by (simp add: prf_source_params_def gaussian_stddev_def amplitude_store_def colnames_def
        cell_def column_def)
  have v3: "gaussian_source_params (both_store ! 0) 0 ''amplitude'' = 3"
    by (simp add: gaussian_source_params_def both_store_def colnames_def cell_def column_def)
  have v4: "prf_source_params (both_store ! 0) 0 ''flux'' = 5"
    by (simp add: prf_source_params_def both_store_def colnames_def cell_def column_def)
  note F = wrappers_convert_flux_amplitude [OF table_ok_stores(1) fh,
      of amplitude_model_ev no_discretizer "(1, 1)" 1]
  note A = wrappers_convert_flux_amplitude [OF table_ok_stores(2) ah,
      of flux_model_ev no_discretizer "(1, 1)" 1]
  note B1 = wrappers_convert_flux_amplitude [OF table_ok_stores(3) bh,
      of amplitude_model_ev no_discretizer "(1, 1)" 1]
  note B2 = wrappers_convert_flux_amplitude [OF table_ok_stores(3) bh,
      of flux_model_ev no_discretizer "(1, 1)" 1]
  have c1: "snd (make_gaussian_sources_image amplitude_model_ev no_discretizer flux_store (1, 1) 0 1)
       = Inr [[1]]"
  proof -
    have m: "map (gaussian_source_params (flux_store ! 0)) [0..<nrows (flux_store ! 0)]
             = [gaussian_source_params (flux_store ! 0) 0]"
      by (simp add: fn)
    from F have "snd (make_gaussian_sources_image amplitude_model_ev no_discretizer flux_store
                        (1, 1) 0 1) =
        render_params no_discretizer (1, 1) 1 (Gaussian2D amplitude_model_ev)
          (map (gaussian_source_params (flux_store ! 0)) [0..<nrows (flux_store ! 0)])
          (zeros (1, 1))"
      by blast
    then show ?thesis by (simp only: m render_one_gaussian v1)
  qed
  have c2: "fst (make_gaussian_sources_image amplitude_model_ev no_discretizer flux_store (1, 1) 0 1)
       = [[(''flux'', [2 * pi])], [(''flux'', [2 * pi]), (''amplitude'', [1])]]"
  proof -
    from F f have "fst (make_gaussian_sources_image amplitude_model_ev no_discretizer flux_store
                          (1, 1) 0 1) =
        flux_store @ [flux_store ! 0 @ [(''amplitude'',
             map (\<lambda>i. cell (flux_store ! 0) ''flux'' i
                        / (2 * pi * gaussian_stddev (flux_store ! 0) ''x_stddev'' i
                             * gaussian_stddev (flux_store ! 0) ''y_stddev'' i))
               [0..<nrows (flux_store ! 0)])]]"
      by blast
    then show ?thesis
      by (simp add: fn) (simp add: flux_store_def gaussian_stddev_def colnames_def cell_def
          column_def)
  qed
  have c3: "snd (make_gaussian_prf_sources_image flux_model_ev no_discretizer amplitude_store (1, 1) 0)
       = Inr [[3 * (2 * pi)]]"
  proof -
    have m: "map (prf_source_params (amplitude_store ! 0)) [0..<nrows (amplitude_store ! 0)]
             = [prf_source_params (amplitude_store ! 0) 0]"
      by (simp add: an)
    from A have "snd (make_gaussian_prf_sources_image flux_model_ev no_discretizer
                        amplitude_store (1, 1) 0) =
        render_params no_discretizer (1, 1) 1 (IntegratedGaussianPRF flux_model_ev)
          (map (prf_source_params (amplitude_store ! 0)) [0..<nrows (amplitude_store ! 0)])
          (zeros (1, 1))"
      by blast
    then show ?thesis by (simp only: m render_one_prf v2)
  qed
  have c4: "fst (make_gaussian_prf_sources_image flux_model_ev no_discretizer amplitude_store (1, 1) 0)
       = [[(''amplitude'', [3])], [(''amplitude'', [3]), (''flux'', [3 * (2 * pi)])]]"
  proof -
    from A am have "fst (make_gaussian_prf_sources_image flux_model_ev no_discretizer
                           amplitude_store (1, 1) 0) =
        amplitude_store @ [amplitude_store ! 0 @ [(''flux'',
             map (\<lambda>i. cell (amplitude_store ! 0) ''amplitude'' i
                        * (2 * pi * gaussian_stddev (amplitude_store ! 0) ''sigma'' i
                             * gaussian_stddev (amplitude_store ! 0) ''sigma'' i))
               [0..<nrows (amplitude_store ! 0)])]]"
      by blast
    then show ?thesis
      by (simp add: an) (simp add: amplitude_store_def gaussian_stddev_def colnames_def cell_def
          column_def)
  qed
  have c5: "snd (make_gaussian_sources_image amplitude_model_ev no_discretizer both_store (1, 1) 0 1)
       = Inr [[3]]"
  proof -
    have m: "map (gaussian_source_params (both_store ! 0)) [0..<nrows (both_store ! 0)]
             = [gaussian_source_params (both_store ! 0) 0]"
      by (simp add: bn)
    from B1 have "snd (make_gaussian_sources_image amplitude_model_ev no_discretizer both_store
                         (1, 1) 0 1) =
        render_params no_discretizer (1, 1) 1 (Gaussian2D amplitude_model_ev)
          (map (gaussian_source_params (both_store ! 0)) [0..<nrows (both_store ! 0)])
          (zeros (1, 1))"
      by blast
    then show ?thesis by (simp only: m render_one_gaussian v3)
  qed
  have c6: "snd (make_gaussian_prf_sources_image flux_model_ev no_discretizer both_store (1, 1) 0)
       = Inr [[5]]"
  proof -
    have m: "map (prf_source_params (both_store ! 0)) [0..<nrows (both_store ! 0)]
             = [prf_source_params (both_store ! 0) 0]"
      by (simp add: bn)
    from B2 have "snd (make_gaussian_prf_sources_image flux_model_ev no_discretizer both_store
                         (1, 1) 0) =
        render_params no_discretizer (1, 1) 1 (IntegratedGaussianPRF flux_model_ev)
          (map (prf_source_params (both_store ! 0)) [0..<nrows (both_store ! 0)])
          (zeros (1, 1))"
      by blast
    then show ?thesis by (simp only: m render_one_prf v4)
  qed
  from table_ok_stores f fz am b c1 c2 c3 c4 c5 c6 show ?thesis by blast
qed

text \<open>
  C9. Neither wrapper changes the caller's table: the column is added to a copy, and
  the table at the caller's reference is after the call what it was before.
\<close>

theorem wrappers_keep_caller_table:
  assumes "a < length h"
  shows "fst (make_gaussian_sources_image ev disc h shape a oversample) ! a = h ! a
       \<and> fst (make_gaussian_prf_sources_image ev disc h shape a) ! a = h ! a"
  using assms
  by (simp add: make_gaussian_sources_image_def make_gaussian_prf_sources_image_def
      copy_table_def setitem_def Let_def nth_append split: option.splits)

theorem wrappers_keep_caller_table_witness:
  "0 < length flux_store
   \<and> fst (make_gaussian_sources_image amplitude_model_ev no_discretizer flux_store (1, 1) 0 1) ! 0
       = [(''flux'', [2 * pi])]
   \<and> fst (make_gaussian_prf_sources_image amplitude_model_ev no_discretizer flux_store (1, 1) 0) ! 0
       = [(''flux'', [2 * pi])]"
  using wrappers_keep_caller_table [of 0 flux_store amplitude_model_ev no_discretizer "(1, 1)" 1]
  by (simp add: flux_store_def)

subsection \<open>The PSF test image\<close>

lemma length_add_at [simp]: "length (add_at data slc f) = length data"
  by (simp add: add_at_def)

lemma add_at_nth:
  assumes "i < length data"
  shows "length (add_at data slc f ! i) = length (data ! i)"
    and "j < length (data ! i) \<Longrightarrow>
         add_at data slc f ! i ! j =
           (if in_slices slc i j then data ! i ! j + f (real j) (real i) else data ! i ! j)"
  using assms by (simp_all add: add_at_def nth_enumerate_eq)

lemma overlap_slices_window:
  assumes "overlap_slices shape ps pos = Inr slc"
  shows "in_slices slc i j = in_clipped_window shape ps pos i j"
proof -
  define ymin where "ymin = \<lceil>fst pos - real_of_int (fst ps) / 2\<rceil>"
  define ymax where "ymax = \<lceil>fst pos + real_of_int (fst ps) / 2\<rceil>"
  define xmin where "xmin = \<lceil>snd pos - real_of_int (snd ps) / 2\<rceil>"
  define xmax where "xmax = \<lceil>snd pos + real_of_int (snd ps) / 2\<rceil>"
  have u: "overlap_slices shape ps pos =
      (if ymax < 0 \<or> (ymax = 0 \<and> ps \<noteq> (0, 0))
          \<or> xmax < 0 \<or> (xmax = 0 \<and> ps \<noteq> (0, 0)) then Inl NoOverlapError
       else if ymin \<ge> int (fst shape) \<or> xmin \<ge> int (snd shape) then Inl NoOverlapError
       else Inr ((nat (max 0 ymin), nat (min (int (fst shape)) ymax)),
                 (nat (max 0 xmin), nat (min (int (snd shape)) xmax))))"
    by (simp add: overlap_slices_def Let_def ymin_def ymax_def xmin_def xmax_def)
  from assms u have c: "0 \<le> ymax" "0 \<le> xmax"
    and s: "slc = ((nat (max 0 ymin), nat (min (int (fst shape)) ymax)),
                   (nat (max 0 xmin), nat (min (int (snd shape)) xmax)))"
    by (simp_all split: if_splits)
  have y: "(nat (max 0 ymin) \<le> i \<and> i < nat (min (int (fst shape)) ymax))
           = (i < fst shape \<and> ymin \<le> int i \<and> int i < ymax)"
    using c(1) by linarith
  have x: "(nat (max 0 xmin) \<le> j \<and> j < nat (min (int (snd shape)) xmax))
           = (j < snd shape \<and> xmin \<le> int j \<and> int j < xmax)"
    using c(2) by linarith
  have "in_slices slc i j = ((nat (max 0 ymin) \<le> i \<and> i < nat (min (int (fst shape)) ymax))
          \<and> (nat (max 0 xmin) \<le> j \<and> j < nat (min (int (snd shape)) xmax)))"
    by (simp add: in_slices_def s)
  also have "\<dots> = ((i < fst shape \<and> ymin \<le> int i \<and> int i < ymax)
          \<and> (j < snd shape \<and> xmin \<le> int j \<and> int j < xmax))"
    by (simp only: x y)
  also have "\<dots> = in_clipped_window shape ps pos i j"
    by (auto simp: in_clipped_window_def ymin_def ymax_def xmin_def xmax_def)
  finally show ?thesis .
qed

lemma place_sources_outside:
  assumes "place_sources shape ps t rows m d = (m', Inr d')"
    and "i < length d" and "j < length (d ! i)"
    and "\<forall>k \<in> set rows. \<not> in_clipped_window shape ps (cell t ''y_0'' k, cell t ''x_0'' k) i j"
  shows "length d' = length d \<and> length (d' ! i) = length (d ! i) \<and> d' ! i ! j = d ! i ! j"
  using assms
proof (induction rows arbitrary: m d)
  case Nil
  then show ?case by simp
next
  case (Cons k rows)
  let ?m = "fold (\<lambda>param m'. setattr m' param (cell t param k)) [''x_0'', ''y_0'', ''flux''] m"
  from Cons.prems(1) obtain slc f where
    ov: "overlap_slices shape ps (cell t ''y_0'' k, cell t ''x_0'' k) = Inr slc"
    and ev: "evaluate ?m (params ?m) = Some f"
    and rest: "place_sources shape ps t rows ?m (add_at d slc f) = (m', Inr d')"
    by (auto simp: Let_def split: sum.splits option.splits)
  have nin: "\<not> in_slices slc i j"
    using Cons.prems(4) overlap_slices_window [OF ov] by simp
  have l1: "i < length (add_at d slc f)" using Cons.prems(2) by simp
  have l2: "j < length (add_at d slc f ! i)"
    using Cons.prems(2,3) by (simp add: add_at_nth(1))
  have r: "\<forall>k \<in> set rows. \<not> in_clipped_window shape ps (cell t ''y_0'' k, cell t ''x_0'' k) i j"
    using Cons.prems(4) by simp
  from Cons.IH [OF rest l1 l2 r] show ?case
    using Cons.prems(2,3) nin by (simp add: add_at_nth)
qed

lemma make_test_psf_data_unfold:
  assumes d: "define_psf_shape m ps = Inr (ps', ws)"
    and r: "make_test_psf_data gen unit shape m ps n fr sep seed border = (m', ws', Inr (data, tbl))"
  shows "\<exists>cs fl. cs = gen n (snd (hshape_of ps' border), int (snd shape) - snd (hshape_of ps' border))
                         (fst (hshape_of ps' border), int (fst shape) - fst (hshape_of ps' border)) sep seed
           \<and> fl = take (length cs) (uniform unit seed (fst fr) (snd fr) n)
           \<and> length fl = length cs
           \<and> ws' = ws
           \<and> tbl = [(''x'', map fst cs), (''y'', map snd cs), (''flux'', fl)]
           \<and> place_sources shape ps' [(''x_0'', map fst cs), (''y_0'', map snd cs), (''flux'', fl)]
                [0..<length cs] m (zeros shape) = (m', Inr data)"
proof -
  define cs where "cs = gen n (snd (hshape_of ps' border), int (snd shape) - snd (hshape_of ps' border))
                         (fst (hshape_of ps' border), int (fst shape) - fst (hshape_of ps' border)) sep seed"
  define fl where "fl = take (length cs) (uniform unit seed (fst fr) (snd fr) n)"
  define t where "t = [(''x_0'', map fst cs), (''y_0'', map snd cs), (''flux'', fl)]"
  have nr: "nrows t = length cs" by (simp add: t_def nrows_def)
  obtain m1 r1 where pl: "place_sources shape ps' t [0..<length cs] m (zeros shape) = (m1, r1)"
    by (cases "place_sources shape ps' t [0..<length cs] m (zeros shape)")
  have u: "make_test_psf_data gen unit shape m ps n fr sep seed border =
        (if length fl \<noteq> length cs then (m, ws, Inl ValueError)
         else case r1 of Inl e \<Rightarrow> (m1, ws, Inl e)
              | Inr data \<Rightarrow> (m1, ws, Inr (data, [(''x'', map fst cs), (''y'', map snd cs), (''flux'', fl)])))"
    unfolding make_test_psf_data_def
    by (simp add: d Let_def cs_def [symmetric] fl_def [symmetric] t_def [symmetric] nr pl del: length_take)
  have len: "length fl = length cs"
    using r u by (cases "length fl = length cs") simp_all
  have "r1 = Inr data \<and> m1 = m' \<and> ws' = ws
        \<and> tbl = [(''x'', map fst cs), (''y'', map snd cs), (''flux'', fl)]"
    using r u len by (cases r1) simp_all
  then show ?thesis
    using len pl unfolding cs_def fl_def t_def by blast
qed


lemma place_sources_total:
  assumes "\<forall>p. evaluate m p \<noteq> None"
    and "\<forall>k \<in> set rows. overlap_slices shape ps (cell t ''y_0'' k, cell t ''x_0'' k) \<noteq> Inl NoOverlapError"
  shows "\<exists>m' d'. place_sources shape ps t rows m d = (m', Inr d')"
  using assms
proof (induction rows arbitrary: m d)
  case Nil
  then show ?case by simp
next
  case (Cons k rows)
  let ?m = "fold (\<lambda>param m'. setattr m' param (cell t param k)) [''x_0'', ''y_0'', ''flux''] m"
  have e: "evaluate ?m = evaluate m" by simp
  have "k \<in> set (k # rows)" by simp
  with Cons.prems(2)
  have no: "overlap_slices shape ps (cell t ''y_0'' k, cell t ''x_0'' k) \<noteq> Inl NoOverlapError"
    by blast
  obtain slc where ov: "overlap_slices shape ps (cell t ''y_0'' k, cell t ''x_0'' k) = Inr slc"
  proof (cases "overlap_slices shape ps (cell t ''y_0'' k, cell t ''x_0'' k)")
    case (Inl e)
    then have "e = NoOverlapError"
      by (simp add: overlap_slices_def Let_def split: if_splits)
    with Inl no show ?thesis by simp
  next
    case (Inr slc)
    then show ?thesis by (rule that)
  qed
  have "evaluate ?m (params ?m) \<noteq> None"
    using Cons.prems(1) by auto
  then obtain f where ev: "evaluate ?m (params ?m) = Some f"
    by auto
  have "\<exists>m' d'. place_sources shape ps t rows ?m (add_at d slc f) = (m', Inr d')"
    using Cons.prems by (intro Cons.IH) simp_all
  then show ?case using ov ev by (simp add: Let_def)
qed

lemma make_test_psf_data_returns:
  assumes d: "define_psf_shape m ps = Inr (ps', ws)"
    and len: "length (xycoords_of gen shape (hshape_of ps' border) n sep seed) \<le> n"
    and ev: "\<forall>p. evaluate m p \<noteq> None"
    and ov: "\<forall>c \<in> set (xycoords_of gen shape (hshape_of ps' border) n sep seed).
               overlap_slices shape ps' (snd c, fst c) \<noteq> Inl NoOverlapError"
  shows "\<exists>m' data. make_test_psf_data gen unit shape m ps n fr sep seed border =
           (m', ws, Inr (data,
              [(''x'', map fst (xycoords_of gen shape (hshape_of ps' border) n sep seed)),
               (''y'', map snd (xycoords_of gen shape (hshape_of ps' border) n sep seed)),
               (''flux'', take (length (xycoords_of gen shape (hshape_of ps' border) n sep seed))
                            (uniform unit seed (fst fr) (snd fr) n))]))"
proof -
  define xy where "xy = xycoords_of gen shape (hshape_of ps' border) n sep seed"
  define fl where "fl = take (length xy) (uniform unit seed (fst fr) (snd fr) n)"
  define t where "t = [(''x_0'', map fst xy), (''y_0'', map snd xy), (''flux'', fl)]"
  have xy': "gen n (snd (hshape_of ps' border), int (snd shape) - snd (hshape_of ps' border))
               (fst (hshape_of ps' border), int (fst shape) - fst (hshape_of ps' border)) sep seed = xy"
    by (simp add: xy_def xycoords_of_def)
  have lfl: "length fl = length xy"
    using len by (simp add: fl_def xy_def uniform_def)
  have nr: "nrows t = length xy" by (simp add: t_def nrows_def)
  have "\<forall>k \<in> set [0..<length xy].
          overlap_slices shape ps' (cell t ''y_0'' k, cell t ''x_0'' k) \<noteq> Inl NoOverlapError"
  proof
    fix k assume "k \<in> set [0..<length xy]"
    then have k: "k < length xy" by simp
    then have "xy ! k \<in> set xy" by simp
    with ov have "overlap_slices shape ps' (snd (xy ! k), fst (xy ! k)) \<noteq> Inl NoOverlapError"
      by (simp add: xy_def)
    then show "overlap_slices shape ps' (cell t ''y_0'' k, cell t ''x_0'' k) \<noteq> Inl NoOverlapError"
      using k by (simp add: t_def cell_def column_def)
  qed
  with ev obtain m' data where
    pl: "place_sources shape ps' t [0..<length xy] m (zeros shape) = (m', Inr data)"
    using place_sources_total [of m "[0..<length xy]" shape ps' t "zeros shape"] by blast
  have "make_test_psf_data gen unit shape m ps n fr sep seed border =
          (m', ws, Inr (data, [(''x'', map fst xy), (''y'', map snd xy), (''flux'', fl)]))"
    unfolding make_test_psf_data_def
    by (simp add: d Let_def xy' fl_def [symmetric] t_def [symmetric] nr pl lfl del: length_take)
  then show ?thesis
    unfolding fl_def xy_def by blast
qed

text \<open>The concrete generator keeps the contract.\<close>

lemma le_sqrt_of_sq:
  fixes s d :: real
  assumes "s \<le> 0 \<or> s\<^sup>2 \<le> d" and "0 \<le> d"
  shows "s \<le> sqrt d"
proof (cases "s \<le> 0")
  case False
  with assms(1) have "s\<^sup>2 \<le> d" by simp
  then show ?thesis by (rule real_le_rsqrt)
next
  case True
  from assms(2) have "0 \<le> sqrt d" by simp
  with True show ?thesis by linarith
qed

lemma corner_xycoords_cases:
  fixes xr yr :: "int \<times> int"
  defines "c1 \<equiv> (real_of_int (fst xr), real_of_int (fst yr))"
    and "c2 \<equiv> (real_of_int (snd xr), real_of_int (snd yr))"
  shows "corner_xycoords n xr yr s seed = []
       \<or> (fst xr \<le> snd xr \<and> fst yr \<le> snd yr \<and> 0 < n \<and> corner_xycoords n xr yr s seed = [c1])
       \<or> (fst xr \<le> snd xr \<and> fst yr \<le> snd yr \<and> 1 < n
           \<and> (s \<le> 0 \<or> s\<^sup>2 \<le> (fst c1 - fst c2)\<^sup>2 + (snd c1 - snd c2)\<^sup>2)
           \<and> corner_xycoords n xr yr s seed = [c1, c2])"
proof (cases "fst xr > snd xr \<or> fst yr > snd yr")
  case True
  then show ?thesis by (simp add: corner_xycoords_def)
next
  case False
  note rng = False
  show ?thesis
  proof (cases n)
    case 0
    then show ?thesis using rng by (simp add: corner_xycoords_def Let_def)
  next
    case (Suc k)
    show ?thesis
    proof (cases "s \<le> 0 \<or> s\<^sup>2 \<le> (fst c1 - fst c2)\<^sup>2 + (snd c1 - snd c2)\<^sup>2")
      case False
      then have "corner_xycoords n xr yr s seed = [c1]"
        using rng Suc by (simp add: corner_xycoords_def Let_def c1_def c2_def)
      then show ?thesis using rng Suc by simp
    next
      case True
      note far = True
      show ?thesis
      proof (cases k)
        case 0
        then have "corner_xycoords n xr yr s seed = [c1]"
          using rng Suc far by (simp add: corner_xycoords_def Let_def c1_def c2_def)
        then show ?thesis using rng Suc by simp
      next
        case (Suc k')
        then have "corner_xycoords n xr yr s seed = [c1, c2]"
          using rng \<open>n = Suc k\<close> far by (simp add: corner_xycoords_def Let_def c1_def c2_def)
        then show ?thesis using rng \<open>n = Suc k\<close> Suc far by simp
      qed
    qed
  qed
qed

lemma corner_xycoords_contract: "xycoords_contract corner_xycoords"
  unfolding xycoords_contract_def Let_def
proof (intro allI)
  fix n and xr yr :: "int \<times> int" and s :: real and seed :: nat
  let ?cs = "corner_xycoords n xr yr s seed"
  let ?c1 = "(real_of_int (fst xr), real_of_int (fst yr))"
  let ?c2 = "(real_of_int (snd xr), real_of_int (snd yr))"
  let ?P = "length ?cs \<le> n
      \<and> (\<forall>c\<in>set ?cs. real_of_int (fst xr) \<le> fst c \<and> fst c \<le> real_of_int (snd xr)
                     \<and> real_of_int (fst yr) \<le> snd c \<and> snd c \<le> real_of_int (snd yr))
      \<and> (\<forall>i<length ?cs. \<forall>j<length ?cs. i \<noteq> j \<longrightarrow>
            s \<le> sqrt ((fst (?cs ! i) - fst (?cs ! j))\<^sup>2 + (snd (?cs ! i) - snd (?cs ! j))\<^sup>2))"
  from corner_xycoords_cases [of n xr yr s seed]
  consider (none) "?cs = []"
    | (one) "fst xr \<le> snd xr" "fst yr \<le> snd yr" "0 < n" "?cs = [?c1]"
    | (two) "fst xr \<le> snd xr" "fst yr \<le> snd yr" "1 < n"
        "s \<le> 0 \<or> s\<^sup>2 \<le> (fst ?c1 - fst ?c2)\<^sup>2 + (snd ?c1 - snd ?c2)\<^sup>2" "?cs = [?c1, ?c2]"
    by blast
  then show ?P
  proof cases
    case none
    then show ?thesis by simp
  next
    case one
    then show ?thesis by simp
  next
    case two
    have d: "s \<le> sqrt ((fst ?c1 - fst ?c2)\<^sup>2 + (snd ?c1 - snd ?c2)\<^sup>2)"
      using two(4) by (rule le_sqrt_of_sq) simp
    have d': "s \<le> sqrt ((fst ?c2 - fst ?c1)\<^sup>2 + (snd ?c2 - snd ?c1)\<^sup>2)"
      using d by (simp add: power2_commute)
    have sep: "\<forall>i<length ?cs. \<forall>j<length ?cs. i \<noteq> j \<longrightarrow>
            s \<le> sqrt ((fst (?cs ! i) - fst (?cs ! j))\<^sup>2 + (snd (?cs ! i) - snd (?cs ! j))\<^sup>2)"
    proof (intro allI impI)
      fix i j
      assume "i < length ?cs" "j < length ?cs" "i \<noteq> j"
      then have "(i = 0 \<and> j = 1) \<or> (i = 1 \<and> j = 0)"
        by (simp add: two(5)) linarith
      then show "s \<le> sqrt ((fst (?cs ! i) - fst (?cs ! j))\<^sup>2 + (snd (?cs ! i) - snd (?cs ! j))\<^sup>2)"
      proof
        assume "i = 0 \<and> j = 1"
        then show ?thesis using d by (simp add: two(5))
      next
        assume "i = 1 \<and> j = 0"
        then show ?thesis using d' by (simp add: two(5))
      qed
    qed
    have len: "length ?cs \<le> n" using two(3) by (simp add: two(5))
    have rng: "\<forall>c\<in>set ?cs. real_of_int (fst xr) \<le> fst c \<and> fst c \<le> real_of_int (snd xr)
                     \<and> real_of_int (fst yr) \<le> snd c \<and> snd c \<le> real_of_int (snd yr)"
      using two(1,2) by (simp add: two(5))
    from len rng sep show ?thesis by blast
  qed
qed

lemma flux_model_window: "define_psf_shape flux_model ps = Inr (ps, [])"
  by (simp add: define_psf_shape_def flux_model_def bare_model_def)

lemma flux_model_evaluates: "\<forall>p. evaluate flux_model p \<noteq> None"
  by (simp add: flux_model_def bare_model_def)

lemma corner_far: "xycoords_of corner_xycoords (10, 10) (1, 1) 2 20 0 = [(1, 1)]"
  by (simp add: xycoords_of_def corner_xycoords_def)

lemma corner_near: "xycoords_of corner_xycoords (10, 10) (1, 1) 2 1 0 = [(1, 1), (9, 9)]"
  by (simp add: xycoords_of_def corner_xycoords_def)

lemma hshape_3: "hshape_of (3, 3) None = (1, 1)"
  by (simp add: hshape_of_def)

lemma hshape_4: "hshape_of (4, 4) None = (1, 1)"
  by (simp add: hshape_of_def)

lemma overlap_1_1: "overlap_slices (10, 10) (3, 3) (1, 1) = Inr ((0, 3), (0, 3))"
  by (simp add: overlap_slices_def Let_def)

lemma overlap_9_9: "overlap_slices (10, 10) (3, 3) (9, 9) = Inr ((8, 10), (8, 10))"
  by (simp add: overlap_slices_def Let_def)

lemma overlap4_1_1: "overlap_slices (10, 10) (4, 4) (1, 1) = Inr ((0, 3), (0, 3))"
  by (simp add: overlap_slices_def Let_def)

lemma overlap4_9_9: "overlap_slices (10, 10) (4, 4) (9, 9) = Inr ((7, 10), (7, 10))"
  by (simp add: overlap_slices_def Let_def)

lemma uniform_half: "uniform half_unit 0 100 1000 2 = [550, 550]"
  by (simp add: uniform_def half_unit_def upt_rec)

text \<open>
  C6. When the generator returns fewer positions than requested, the call returns as
  usual: no exception is raised on that account, the warnings are those of the window
  step and no other, and the table has one row (x, y, flux) for each position
  returned, the fluxes being the first of those drawn.
\<close>

theorem fewer_sources_returned_silently:
  assumes "define_psf_shape m ps = Inr (ps', ws)"
    and "xycoords_contract gen"
    and "\<forall>p. evaluate m p \<noteq> None"
    and "\<forall>c \<in> set (xycoords_of gen shape (hshape_of ps' border) n sep seed).
           overlap_slices shape ps' (snd c, fst c) \<noteq> Inl NoOverlapError"
  shows "length (xycoords_of gen shape (hshape_of ps' border) n sep seed) \<le> n
       \<and> (\<exists>m' data. make_test_psf_data gen unit shape m ps n fr sep seed border =
           (m', ws, Inr (data,
              [(''x'', map fst (xycoords_of gen shape (hshape_of ps' border) n sep seed)),
               (''y'', map snd (xycoords_of gen shape (hshape_of ps' border) n sep seed)),
               (''flux'', take (length (xycoords_of gen shape (hshape_of ps' border) n sep seed))
                            (uniform unit seed (fst fr) (snd fr) n))])))
       \<and> length (take (length (xycoords_of gen shape (hshape_of ps' border) n sep seed))
                   (uniform unit seed (fst fr) (snd fr) n))
           = length (xycoords_of gen shape (hshape_of ps' border) n sep seed)"
proof -
  have len: "length (xycoords_of gen shape (hshape_of ps' border) n sep seed) \<le> n"
    using assms(2) by (simp add: xycoords_contract_def xycoords_of_def Let_def)
  have "\<exists>m' data. make_test_psf_data gen unit shape m ps n fr sep seed border =
           (m', ws, Inr (data,
              [(''x'', map fst (xycoords_of gen shape (hshape_of ps' border) n sep seed)),
               (''y'', map snd (xycoords_of gen shape (hshape_of ps' border) n sep seed)),
               (''flux'', take (length (xycoords_of gen shape (hshape_of ps' border) n sep seed))
                            (uniform unit seed (fst fr) (snd fr) n))]))"
    using assms(1) len assms(3,4) by (rule make_test_psf_data_returns)
  with len show ?thesis by (simp add: uniform_def)
qed

theorem fewer_sources_returned_silently_witness:
  "define_psf_shape flux_model (3, 3) = Inr ((3, 3), [])
   \<and> xycoords_contract corner_xycoords
   \<and> (\<forall>p. evaluate flux_model p \<noteq> None)
   \<and> xycoords_of corner_xycoords (10, 10) (hshape_of (3, 3) None) 2 20 0 = [(1, 1)]
   \<and> overlap_slices (10, 10) (3, 3) (1, 1) \<noteq> Inl NoOverlapError
   \<and> (\<exists>m' data. make_test_psf_data corner_xycoords half_unit (10, 10) flux_model (3, 3) 2
                    (100, 1000) 20 0 None =
          (m', [], Inr (data, [(''x'', [1]), (''y'', [1]), (''flux'', [550])])))"
proof -
  have c: "xycoords_of corner_xycoords (10, 10) (hshape_of (3, 3) None) 2 20 0 = [(1, 1)]"
    by (simp add: hshape_3 corner_far)
  have o: "\<forall>c \<in> set (xycoords_of corner_xycoords (10, 10) (hshape_of (3, 3) None) 2 20 0).
             overlap_slices (10, 10) (3, 3) (snd c, fst c) \<noteq> Inl NoOverlapError"
    by (simp add: c overlap_1_1)
  from fewer_sources_returned_silently [OF flux_model_window corner_xycoords_contract
      flux_model_evaluates o, of half_unit "(100, 1000)"]
  have "\<exists>m' data. make_test_psf_data corner_xycoords half_unit (10, 10) flux_model (3, 3) 2
                    (100, 1000) 20 0 None =
          (m', [], Inr (data, [(''x'', [1]), (''y'', [1]), (''flux'', [550])]))"
    by (simp add: c uniform_half)
  then show ?thesis
    using flux_model_window corner_xycoords_contract flux_model_evaluates c
    by (simp add: overlap_1_1)
qed

text \<open>
  Two calls with the concrete generator: both return two sources, at the corners
  \<open>(1, 1)\<close> and \<open>(9, 9)\<close> of the region.
\<close>

lemma corner_call_3:
  "\<exists>m' data. make_test_psf_data corner_xycoords half_unit (10, 10) flux_model (3, 3) 2
                 (100, 1000) 1 0 None =
       (m', [], Inr (data, [(''x'', [1, 9]), (''y'', [1, 9]), (''flux'', [550, 550])]))"
proof -
  have c: "xycoords_of corner_xycoords (10, 10) (hshape_of (3, 3) None) 2 1 0 = [(1, 1), (9, 9)]"
    by (simp add: hshape_3 corner_near)
  have l: "length (xycoords_of corner_xycoords (10, 10) (hshape_of (3, 3) None) 2 1 0) \<le> 2"
    by (simp add: c)
  have o: "\<forall>c \<in> set (xycoords_of corner_xycoords (10, 10) (hshape_of (3, 3) None) 2 1 0).
             overlap_slices (10, 10) (3, 3) (snd c, fst c) \<noteq> Inl NoOverlapError"
    by (simp add: c overlap_1_1 overlap_9_9)
  from make_test_psf_data_returns [OF flux_model_window l flux_model_evaluates o,
      of half_unit "(100, 1000)"]
  show ?thesis by (simp add: c uniform_half)
qed

lemma corner_call_4:
  "\<exists>m' data. make_test_psf_data corner_xycoords half_unit (10, 10) flux_model (4, 4) 2
                 (100, 1000) 1 0 None =
       (m', [], Inr (data, [(''x'', [1, 9]), (''y'', [1, 9]), (''flux'', [550, 550])]))"
proof -
  have c: "xycoords_of corner_xycoords (10, 10) (hshape_of (4, 4) None) 2 1 0 = [(1, 1), (9, 9)]"
    by (simp add: hshape_4 corner_near)
  have l: "length (xycoords_of corner_xycoords (10, 10) (hshape_of (4, 4) None) 2 1 0) \<le> 2"
    by (simp add: c)
  have o: "\<forall>c \<in> set (xycoords_of corner_xycoords (10, 10) (hshape_of (4, 4) None) 2 1 0).
             overlap_slices (10, 10) (4, 4) (snd c, fst c) \<noteq> Inl NoOverlapError"
    by (simp add: c overlap4_1_1 overlap4_9_9)
  from make_test_psf_data_returns [OF flux_model_window l flux_model_evaluates o,
      of half_unit "(100, 1000)"]
  show ?thesis by (simp add: c uniform_half)
qed

lemma sources_of_corner_call_3:
  "sources_of (make_test_psf_data corner_xycoords half_unit (10, 10) flux_model (3, 3) 2
                 (100, 1000) 1 0 None) = [(''x'', [1, 9]), (''y'', [1, 9]), (''flux'', [550, 550])]"
  using corner_call_3 by (auto simp: sources_of_def)

lemma sources_of_corner_call_4:
  "sources_of (make_test_psf_data corner_xycoords half_unit (10, 10) flux_model (4, 4) 2
                 (100, 1000) 1 0 None) = [(''x'', [1, 9]), (''y'', [1, 9]), (''flux'', [550, 550])]"
  using corner_call_4 by (auto simp: sources_of_def)

text \<open>
  C4. Each source adds values only inside its window clipped to the image: a pixel of
  the image that lies in the clipped window of no source of the returned table is zero
  in the returned image.
\<close>

theorem pixels_outside_windows_stay_zero:
  assumes "define_psf_shape m ps = Inr (ps', ws)"
    and "make_test_psf_data gen unit shape m ps n fr sep seed border = (m', ws', Inr (data, tbl))"
    and "i < fst shape" and "j < snd shape"
    and "\<forall>k < nrows tbl. \<not> in_clipped_window shape ps' (cell tbl ''y'' k, cell tbl ''x'' k) i j"
  shows "data ! i ! j = 0"
proof -
  from make_test_psf_data_unfold [OF assms(1,2)] obtain cs fl where
    tbl: "tbl = [(''x'', map fst cs), (''y'', map snd cs), (''flux'', fl)]"
    and pl: "place_sources shape ps' [(''x_0'', map fst cs), (''y_0'', map snd cs), (''flux'', fl)]
                [0..<length cs] m (zeros shape) = (m', Inr data)"
    by blast
  let ?t = "[(''x_0'', map fst cs), (''y_0'', map snd cs), (''flux'', fl)]"
  have out: "\<forall>k \<in> set [0..<length cs].
               \<not> in_clipped_window shape ps' (cell ?t ''y_0'' k, cell ?t ''x_0'' k) i j"
    using assms(5) by (simp add: tbl nrows_def cell_def column_def)
  have z: "i < length (zeros shape)" "j < length (zeros shape ! i)"
    using assms(3,4) by (simp_all add: zeros_def)
  from place_sources_outside [OF pl z out] have "data ! i ! j = zeros shape ! i ! j"
    by simp
  then show ?thesis using assms(3,4) by (simp add: zeros_def)
qed

theorem pixels_outside_windows_stay_zero_witness:
  "define_psf_shape flux_model (3, 3) = Inr ((3, 3), [])
   \<and> (5::nat) < fst (10::nat, 10::nat) \<and> (5::nat) < snd (10::nat, 10::nat)
   \<and> sources_of (make_test_psf_data corner_xycoords half_unit (10, 10) flux_model (3, 3) 2
                   (100, 1000) 1 0 None)
       = [(''x'', [1, 9]), (''y'', [1, 9]), (''flux'', [550, 550])]
   \<and> \<not> in_clipped_window (10, 10) (3, 3) (1, 1) 5 5
   \<and> \<not> in_clipped_window (10, 10) (3, 3) (9, 9) 5 5
   \<and> image_of (make_test_psf_data corner_xycoords half_unit (10, 10) flux_model (3, 3) 2
                 (100, 1000) 1 0 None) ! 5 ! 5 = 0"
proof -
  from corner_call_3 obtain m' data where
    r: "make_test_psf_data corner_xycoords half_unit (10, 10) flux_model (3, 3) 2
          (100, 1000) 1 0 None =
        (m', [], Inr (data, [(''x'', [1, 9]), (''y'', [1, 9]), (''flux'', [550, 550])]))"
    by blast
  have w1: "\<not> in_clipped_window (10, 10) (3, 3) (1, 1) 5 5"
    by (simp add: in_clipped_window_def)
  have w2: "\<not> in_clipped_window (10, 10) (3, 3) (9, 9) 5 5"
    by (simp add: in_clipped_window_def)
  have out: "\<forall>k < nrows [(''x'', [1, 9]), (''y'', [1, 9]), (''flux'', [550, 550])].
      \<not> in_clipped_window (10, 10) (3, 3)
          (cell [(''x'', [1, 9]), (''y'', [1, 9]), (''flux'', [550, 550])] ''y'' k,
           cell [(''x'', [1, 9]), (''y'', [1, 9]), (''flux'', [550, 550])] ''x'' k) 5 5"
  proof (intro allI impI)
    fix k assume "k < nrows [(''x'', [1, 9]), (''y'', [1, 9]), (''flux'', [550::real, 550])]"
    then have "k = 0 \<or> k = 1" by (simp add: nrows_def) linarith
    then show "\<not> in_clipped_window (10, 10) (3, 3)
          (cell [(''x'', [1, 9]), (''y'', [1, 9]), (''flux'', [550, 550])] ''y'' k,
           cell [(''x'', [1, 9]), (''y'', [1, 9]), (''flux'', [550, 550])] ''x'' k) 5 5"
      using w1 w2 by (auto simp: cell_def column_def)
  qed
  have "data ! 5 ! 5 = 0"
    by (rule pixels_outside_windows_stay_zero [OF flux_model_window r _ _ out]) simp_all
  then show ?thesis
    using w1 w2 by (simp add: flux_model_window r sources_of_def image_of_def)
qed

text \<open>
  C7. With no border given, the margin is to be half the window size on each axis (so
  says the documentation of \<^verbatim>\<open>border_size\<close>), and the centres are to lie
  between the margin and the image size minus the margin. For the window \<open>(4, 4)\<close>
  the margin computed is \<open>(1, 1)\<close>, and a generator that keeps to the ranges it is
  given returns a centre with \<open>x = 1\<close>, less than half the window size.
\<close>

theorem border_of_even_window_below_half:
  "hshape_of (4, 4) None = (1, 1)
   \<and> cell (sources_of (make_test_psf_data corner_xycoords half_unit (10, 10) flux_model (4, 4) 2
                         (100, 1000) 1 0 None)) ''x'' 0 = 1
   \<and> (1::real) < real_of_int (snd (4::int, 4::int)) / 2"
  by (simp add: hshape_4 sources_of_corner_call_4 cell_def column_def)

text \<open>
  What the code does: the margin on each axis is the window size minus one, halved and
  rounded down, and every centre of the returned table lies between this margin and the
  image size minus this margin, for every generator that keeps its contract.
\<close>

lemma centers_within_border:
  assumes "define_psf_shape m ps = Inr (ps', ws)"
    and "xycoords_contract gen"
    and "make_test_psf_data gen unit shape m ps n fr sep seed None = (m', ws', Inr (data, tbl))"
    and "k < nrows tbl"
  shows "hshape_of ps' None = ((fst ps' - 1) div 2, (snd ps' - 1) div 2)
       \<and> real_of_int ((snd ps' - 1) div 2) \<le> cell tbl ''x'' k
       \<and> cell tbl ''x'' k \<le> real_of_int (int (snd shape) - (snd ps' - 1) div 2)
       \<and> real_of_int ((fst ps' - 1) div 2) \<le> cell tbl ''y'' k
       \<and> cell tbl ''y'' k \<le> real_of_int (int (fst shape) - (fst ps' - 1) div 2)"
proof -
  have h: "hshape_of ps' None = ((fst ps' - 1) div 2, (snd ps' - 1) div 2)"
    by (simp add: hshape_of_def)
  from make_test_psf_data_unfold [OF assms(1,3)] obtain cs fl where
    cs: "cs = gen n (snd (hshape_of ps' None), int (snd shape) - snd (hshape_of ps' None))
                   (fst (hshape_of ps' None), int (fst shape) - fst (hshape_of ps' None)) sep seed"
    and tbl: "tbl = [(''x'', map fst cs), (''y'', map snd cs), (''flux'', fl)]"
    by blast
  have k: "k < length cs" using assms(4) by (simp add: tbl nrows_def)
  then have mem: "cs ! k \<in> set cs" by simp
  have "\<forall>c \<in> set cs.
          real_of_int (snd (hshape_of ps' None)) \<le> fst c
        \<and> fst c \<le> real_of_int (int (snd shape) - snd (hshape_of ps' None))
        \<and> real_of_int (fst (hshape_of ps' None)) \<le> snd c
        \<and> snd c \<le> real_of_int (int (fst shape) - fst (hshape_of ps' None))"
    using assms(2) unfolding xycoords_contract_def Let_def cs
    by (metis fst_conv snd_conv)
  with mem have "real_of_int (snd (hshape_of ps' None)) \<le> fst (cs ! k)
        \<and> fst (cs ! k) \<le> real_of_int (int (snd shape) - snd (hshape_of ps' None))
        \<and> real_of_int (fst (hshape_of ps' None)) \<le> snd (cs ! k)
        \<and> snd (cs ! k) \<le> real_of_int (int (fst shape) - fst (hshape_of ps' None))"
    by blast
  then show ?thesis
    using k by (simp add: h tbl cell_def column_def)
qed

lemma centers_within_border_example:
  "define_psf_shape flux_model (3, 3) = Inr ((3, 3), [])
   \<and> xycoords_contract corner_xycoords
   \<and> sources_of (make_test_psf_data corner_xycoords half_unit (10, 10) flux_model (3, 3) 2
                   (100, 1000) 1 0 None)
       = [(''x'', [1, 9]), (''y'', [1, 9]), (''flux'', [550, 550])]
   \<and> (1::nat) < nrows [(''x'', [1, 9]), (''y'', [1, 9]), (''flux'', [550::real, 550])]
   \<and> hshape_of (3, 3) None = (1, 1)
   \<and> (1::real) \<le> cell [(''x'', [1, 9]), (''y'', [1, 9]), (''flux'', [550, 550])] ''x'' 1
   \<and> cell [(''x'', [1, 9]), (''y'', [1, 9]), (''flux'', [550, 550])] ''x'' 1 \<le> (9::real)"
proof -
  from corner_call_3 obtain m' data where
    r: "make_test_psf_data corner_xycoords half_unit (10, 10) flux_model (3, 3) 2
          (100, 1000) 1 0 None =
        (m', [], Inr (data, [(''x'', [1, 9]), (''y'', [1, 9]), (''flux'', [550, 550])]))"
    by blast
  have n: "(1::nat) < nrows [(''x'', [1, 9]), (''y'', [1, 9]), (''flux'', [550::real, 550])]"
    by (simp add: nrows_def)
  from centers_within_border [OF flux_model_window corner_xycoords_contract r n]
  have "(1::real) \<le> cell [(''x'', [1, 9]), (''y'', [1, 9]), (''flux'', [550, 550])] ''x'' 1
   \<and> cell [(''x'', [1, 9]), (''y'', [1, 9]), (''flux'', [550, 550])] ''x'' 1 \<le> (9::real)"
    by simp
  then show ?thesis
    using n by (simp add: flux_model_window corner_xycoords_contract sources_of_corner_call_3 hshape_3)
qed

subsection \<open>The coordinate systems\<close>

text \<open>
  For the equatorial frame the two transforms are the same function of the pixel
  position, and the frames of the two coordinate systems agree for both choices.
\<close>

lemma equatorial_transforms_agree:
  "wcs_pixel_to_world (make_wcs shape False) p = gwcs_pixel_to_world (make_gwcs shape False) p
   \<and> wcs_frame (make_wcs shape galactic) = sky_frame (make_gwcs shape galactic)"
proof -
  show ?thesis
    by (simp add: wcs_pixel_to_world_def gwcs_pixel_to_world_def make_wcs_def make_gwcs_def
        projection_of_def celestial_pole_def wcs_frame_def Let_def add_diff_eq)
qed

text \<open>A bound on \<open>\<pi>\<close> from the arctangent formula of Euler.\<close>

lemma arctan_le_self:
  assumes "0 \<le> x"
  shows "arctan x \<le> x"
proof -
  have "(\<lambda>y. y - arctan y) 0 \<le> (\<lambda>y. y - arctan y) x"
  proof (rule DERIV_nonneg_imp_nondecreasing [OF assms])
    fix y :: real
    assume "0 \<le> y" "y \<le> x"
    have d: "((\<lambda>y. y - arctan y) has_real_derivative (1 - inverse (1 + y\<^sup>2))) (at y)"
      by (auto intro!: derivative_eq_intros)
    have "inverse (1 + y\<^sup>2) \<le> 1"
      by (intro inverse_le_1_iff [THEN iffD2] disjI2) simp
    then have "0 \<le> 1 - inverse (1 + y\<^sup>2)" by simp
    with d show "\<exists>d. ((\<lambda>y. y - arctan y) has_real_derivative d) (at y) \<and> 0 \<le> d"
      by blast
  qed
  then show ?thesis by simp
qed

lemma pi_upper: "pi \<le> 1748 / 553"
proof -
  have "5 * arctan (1 / 7) + 2 * arctan (3 / 79) \<le> 5 * (1 / 7) + 2 * (3 / 79 :: real)"
    using arctan_le_self [of "1 / 7"] arctan_le_self [of "3 / 79"] by simp
  then have "pi / 4 \<le> 5 * (1 / 7) + 2 * (3 / 79)"
    by (simp only: machin_Euler)
  then show ?thesis by simp
qed

text \<open>
  The intermediate coordinates of the pixel, and its latitude under the two
  projections.
\<close>

lemma intermediate_far_pixel:
  "mat_vec cd_matrix (fst far_pixel + 1 - 4000000, snd far_pixel + 1 - 4000000) = (0, 180 / pi)"
proof -
  have s: "sqrt 3 * sqrt 3 = (3::real)" by simp
  have "fst (mat_vec cd_matrix (fst far_pixel + 1 - 4000000, snd far_pixel + 1 - 4000000)) = 0"
    by (simp add: mat_vec_def cd_matrix_def far_pixel_def rho_def scale_def cos_60 sin_60
        field_simps)
  moreover have "snd (mat_vec cd_matrix (fst far_pixel + 1 - 4000000, snd far_pixel + 1 - 4000000))
        = 180 / pi"
    using s
    by (simp add: mat_vec_def cd_matrix_def far_pixel_def rho_def scale_def cos_60 sin_60
        field_simps)
  ultimately show ?thesis by (simp add: prod_eq_iff)
qed

lemma rad_deg [simp]: "rad (deg x) = x" "deg (rad x) = x"
  by (simp_all add: rad_def deg_def)

lemma rad_mono: "a \<le> b \<Longrightarrow> rad a \<le> rad b"
  unfolding rad_def by (intro divide_right_mono mult_right_mono) simp_all

lemma tan_latitude:
  fixes lat :: real
  assumes "- 135 \<le> lat" and "lat \<le> 45"
  shows "snd (native2celestial (lon, lat, 180) (pix2sky TAN (0, 180 / pi))) = 45 + lat"
proof -
  have p: "0 < 180 / pi" by simp
  have sq: "sqrt ((180 / pi)\<^sup>2) = 180 / pi" by simp
  have th: "arctan2 (180 / pi) (sqrt (0\<^sup>2 + (180 / pi)\<^sup>2)) = pi / 4"
    using p by (simp add: arctan2_def arctan_one)
  have ph: "arctan2 0 (- (180 / pi)) = pi"
    by (simp add: arctan2_def)
  have "pix2sky TAN (0, 180 / pi) = (deg pi, deg (pi / 4))"
    by (simp only: pix2sky_def projection.case fst_conv snd_conv th ph)
  then have n: "pix2sky TAN (0, 180 / pi) = (180, 45)"
    by (simp add: deg_def)
  have r45: "rad 45 = pi / 4" by (simp add: rad_def)
  have "sin (pi / 4) * sin (rad lat) + cos (pi / 4) * cos (rad lat) = cos (pi / 4 - rad lat)"
    by (simp add: cos_diff)
  also have "\<dots> = sin (pi / 4 + rad lat)"
    by (simp add: cos_sin_eq [of "pi / 4 - rad lat"])
  finally have e: "sin (pi / 4) * sin (rad lat) + cos (pi / 4) * cos (rad lat)
                     = sin (pi / 4 + rad lat)" .
  have "rad (- 135) \<le> rad lat" and "rad lat \<le> rad 45"
    using assms by (simp_all add: rad_mono)
  moreover have "rad (- 135) = - (3 * pi / 4)" and "rad 45 = pi / 4"
    by (simp_all add: rad_def)
  ultimately have lo: "- (pi / 2) \<le> pi / 4 + rad lat" and hi: "pi / 4 + rad lat \<le> pi / 2"
    by linarith+
  have "arcsin (sin (pi / 4 + rad lat)) = pi / 4 + rad lat"
    using lo hi by (rule arcsin_sin)
  then have "snd (native2celestial (lon, lat, 180) (180, 45)) = deg (pi / 4 + rad lat)"
    by (simp add: native2celestial_def Let_def r45 e rad_def [of 0])
  also have "\<dots> = 45 + lat"
    by (simp add: deg_def rad_def field_simps)
  finally show ?thesis by (simp add: n)
qed

lemma car_latitude:
  fixes lat :: real
  assumes "- 180 / pi - 90 \<le> lat" and "lat \<le> 0"
  shows "snd (native2celestial (lon, 90 + lat, 180) (pix2sky CAR (0, 180 / pi))) = 180 / pi + lat"
proof -
  have r1: "rad (180 / pi) = 1" by (simp add: rad_def)
  have rp: "rad (90 + lat) = pi / 2 + rad lat" by (simp add: rad_def field_simps)
  have rm: "rad (- 180) = - pi" by (simp add: rad_def)
  have s: "sin (pi / 2 + rad lat) = cos (rad lat)"
    by (simp add: sin_add)
  have c: "cos (pi / 2 + rad lat) = - sin (rad lat)"
    by (simp add: cos_add)
  have e: "sin 1 * sin (pi / 2 + rad lat) + cos 1 * cos (pi / 2 + rad lat) * cos (- pi)
             = sin (1 + rad lat)"
    by (simp add: s c sin_add)
  have "rad (- 180 / pi - 90) \<le> rad lat" and "rad lat \<le> rad 0"
    using assms by (simp_all add: rad_mono)
  moreover have "rad (- 180 / pi - 90) = - 1 - pi / 2" and "rad 0 = 0"
    by (simp_all add: rad_def field_simps)
  moreover have "2 \<le> pi" by (rule pi_ge_two)
  ultimately have lo: "- (pi / 2) \<le> 1 + rad lat" and hi: "1 + rad lat \<le> pi / 2"
    by linarith+
  have "arcsin (sin (1 + rad lat)) = 1 + rad lat"
    using lo hi by (rule arcsin_sin)
  have e': "sin 1 * sin (pi / 2 + rad lat) - cos 1 * cos (pi / 2 + rad lat) = sin (1 + rad lat)"
    using e by simp
  have "snd (native2celestial (lon, 90 + lat, 180) (0, 180 / pi))
          = deg (arcsin (sin 1 * sin (pi / 2 + rad lat) - cos 1 * cos (pi / 2 + rad lat)))"
    by (simp add: native2celestial_def Let_def r1 rp rm)
  also have "\<dots> = deg (1 + rad lat)"
    using \<open>arcsin (sin (1 + rad lat)) = 1 + rad lat\<close> by (simp only: e')
  finally have "snd (native2celestial (lon, 90 + lat, 180) (0, 180 / pi)) = deg (1 + rad lat)" .
  also have "\<dots> = 180 / pi + lat"
    by (simp add: deg_def rad_def field_simps)
  finally show ?thesis by (simp add: pix2sky_def)
qed

lemma far_pixel_in_image:
  "0 \<le> fst far_pixel \<and> fst far_pixel < 8000000 \<and> 0 \<le> snd far_pixel \<and> snd far_pixel < 8000000"
proof -
  have "sqrt 3 \<le> sqrt 4" by (simp only: real_sqrt_le_iff)
  then have s: "sqrt 3 \<le> 2" by simp
  have p: "2 \<le> pi" by (rule pi_ge_two)
  have "3240000 * sqrt 3 / pi \<le> 3240000 * 2 / 2"
    using s p by (intro frac_le mult_left_mono) simp_all
  moreover have "0 \<le> 3240000 * sqrt 3 / pi" by simp
  moreover have "3240000 / pi \<le> 3240000 / 2"
    using p by (intro frac_le) simp_all
  moreover have "0 \<le> 3240000 / pi" by simp
  ultimately show ?thesis
    unfolding far_pixel_def fst_conv snd_conv by linarith
qed

text \<open>
  C2. For every shape and both frames the transforms of \<^verbatim>\<open>make_wcs\<close> and
  \<^verbatim>\<open>make_gwcs\<close> are to give the same sky coordinates at every pixel position.
  For the galactic frame \<^verbatim>\<open>make_wcs\<close> sets the axis types
  \<^verbatim>\<open>GLON-CAR\<close> and \<^verbatim>\<open>GLAT-CAR\<close>, while \<^verbatim>\<open>make_gwcs\<close> composes
  \<^verbatim>\<open>Pix2Sky_TAN\<close> as for the equatorial frame: at a pixel position inside an
  image of shape \<open>(8000000, 8000000)\<close> the two latitudes, both galactic, differ by more
  than 10 degrees.
\<close>

theorem galactic_transforms_differ:
  "0 \<le> fst far_pixel \<and> fst far_pixel < 8000000
   \<and> 0 \<le> snd far_pixel \<and> snd far_pixel < 8000000
   \<and> wcs_frame (make_wcs (8000000, 8000000) True) = sky_frame (make_gwcs (8000000, 8000000) True)
   \<and> snd (wcs_pixel_to_world (make_wcs (8000000, 8000000) True) far_pixel)
       - snd (gwcs_pixel_to_world (make_gwcs (8000000, 8000000) True) far_pixel) > 10"
proof -
  have i: "mat_vec cd_matrix (fst far_pixel + 1 - 4000000, snd far_pixel + 1 - 4000000)
             = (0, 180 / pi)"
    by (rule intermediate_far_pixel)
  have i': "mat_vec cd_matrix (fst far_pixel + (- 4000000 + 1), snd far_pixel + (- 4000000 + 1))
             = (0, 180 / pi)"
    using i by (simp add: algebra_simps)
  have lo: "- 180 / pi - 90 \<le> (- 1.36555556 :: real)"
  proof -
    have "- 180 / pi + - 90 \<le> 0 + (- 1.36555556 :: real)"
      by (rule add_mono) simp_all
    then show ?thesis by simp
  qed
  have w: "snd (wcs_pixel_to_world (make_wcs (8000000, 8000000) True) far_pixel)
             = 180 / pi + (- 1.36555556)"
    using car_latitude [OF lo, where lon = "197.8925"] i
    by (simp add: wcs_pixel_to_world_def make_wcs_def projection_of_def celestial_pole_def
        Let_def)
  have g: "snd (gwcs_pixel_to_world (make_gwcs (8000000, 8000000) True) far_pixel)
             = 45 + (- 1.36555556)"
    using tan_latitude [where lat = "- 1.36555556" and lon = "197.8925"] i'
    by (simp add: gwcs_pixel_to_world_def make_gwcs_def)
  have f: "wcs_frame (make_wcs (8000000, 8000000) True)
             = sky_frame (make_gwcs (8000000, 8000000) True)"
    by (simp add: wcs_frame_def make_wcs_def make_gwcs_def)
  have "pi \<le> 1748 / 553" by (rule pi_upper)
  then have "180 * 553 / 1748 \<le> 180 / pi"
    by (simp add: field_simps)
  then have "55 < 180 / pi" by simp
  then have "snd (wcs_pixel_to_world (make_wcs (8000000, 8000000) True) far_pixel)
       - snd (gwcs_pixel_to_world (make_gwcs (8000000, 8000000) True) far_pixel) > 10"
    unfolding w g by linarith
  with far_pixel_in_image f show ?thesis by blast
qed

end
